theory Spec2Isabelle
  imports Main "HOL-Library.Word"
begin

section \<open>Errors\<close>

text \<open>
  The gRPC status codes the driver uses, and the error values that flow through it.
  \<open>Plain\<close> is an error made by \<open>fmt.Errorf\<close> (or any other error with no
  classification), \<open>NotExist\<close> an operating-system error for which
  \<open>os.IsNotExist\<close> holds, \<open>Status\<close> an error made by \<open>status.Error\<close>,
  and \<open>Panic\<close> a run-time panic (a nil dereference).
\<close>

datatype code = InvalidArgument | Internal | Unimplemented | Unknown

datatype error =
    Plain string
  | NotExist string
  | Status code string
  | Panic string

fun code_name :: "code \<Rightarrow> string" where
  "code_name InvalidArgument = ''InvalidArgument''"
| "code_name Internal = ''Internal''"
| "code_name Unimplemented = ''Unimplemented''"
| "code_name Unknown = ''Unknown''"

text \<open>\<open>err.Error()\<close>: the text of an error.\<close>

fun Error :: "error \<Rightarrow> string" where
  "Error (Plain m) = m"
| "Error (NotExist m) = m"
| "Error (Status c m) = ''rpc error: code = '' @ code_name c @ '' desc = '' @ m"
| "Error (Panic m) = m"

text \<open>\<open>os.IsNotExist(err)\<close>.\<close>

fun IsNotExist :: "error \<Rightarrow> bool" where
  "IsNotExist (NotExist m) = True"
| "IsNotExist e = False"

text \<open>
  \<open>status.Code(err)\<close>: the classification a gRPC client sees. An error that carries
  no status is classified \<open>Unknown\<close>.
\<close>

fun grpc_code :: "error \<Rightarrow> code" where
  "grpc_code (Status c m) = c"
| "grpc_code e = Unknown"

section \<open>Go maps and library functions\<close>

text \<open>
  A \<open>map[string]string\<close> is an association list read with \<open>map_of\<close>; the nil map
  and the empty map are both \<open>[]\<close>. Indexing a Go map at a missing key gives the
  empty string.
\<close>

type_synonym gomap = "(string \<times> string) list"

definition index :: "gomap \<Rightarrow> string \<Rightarrow> string" where
  "index m k = (case map_of m k of None \<Rightarrow> [] | Some v \<Rightarrow> v)"

text \<open>
  \<open>encoding/json\<close> is a parameter of the model: the decoders the code calls through
  \<open>json.Unmarshal\<close> and \<open>json.NewDecoder\<close>, and the encoders it calls through
  \<open>json.Marshal\<close>. The payloads of the volume-management API are the three request
  structs of the controller.
\<close>

datatype payload =
    VolumeRequest string "64 word"
  | DeleteVolumeRequest string
  | VolumeResizeRequest string "64 word"

record VolumeResponse =
  VolumeID :: string
  TargetPortal :: string
  Iqn_of :: string
  Lun_of :: string
  DiscoveryCHAPAuth :: string
  SessionCHAPAuth :: string

record codec =
  decode_strings :: "string \<Rightarrow> error + string list"
  decode_object :: "string \<Rightarrow> error + gomap"
  decode_VolumeResponse :: "string \<Rightarrow> error + VolumeResponse"
  encode_strings :: "string list \<Rightarrow> string"
  encode_payload :: "payload \<Rightarrow> error + string"

text \<open>
  \<open>json.Unmarshal\<close> with a decoder: the one fact about the library that the model
  fixes is that empty input is never a JSON document.
\<close>

definition Unmarshal :: "(string \<Rightarrow> error + 'a) \<Rightarrow> string \<Rightarrow> error + 'a" where
  "Unmarshal dec s =
     (if s = [] then Inl (Plain ''unexpected end of JSON input'') else dec s)"

text \<open>
  \<open>strconv.Atoi\<close>: an optional sign, then one or more decimal digits and nothing
  else; the value must fit Go's 64-bit \<open>int\<close>. The error text quotes the input
  (Go also escapes the characters of the input that need it).
\<close>

definition digit :: "char \<Rightarrow> bool" where
  "digit c = ((48::nat) \<le> of_char c \<and> of_char c \<le> (57::nat))"

fun digits_value :: "int \<Rightarrow> string \<Rightarrow> int" where
  "digits_value acc [] = acc"
| "digits_value acc (c # cs) = digits_value (acc * 10 + (int (of_char c) - 48)) cs"

definition Atoi :: "string \<Rightarrow> error + int" where
  \<open>Atoi s =
     (let neg = (case s of [] \<Rightarrow> False | c # r \<Rightarrow> c = CHR ''-'');
          body = (case s of [] \<Rightarrow> [] | c # r \<Rightarrow> if c = CHR ''+'' \<or> c = CHR ''-'' then r else s)
      in if body = [] \<or> \<not> list_all digit body
         then Inl (Plain (''strconv.Atoi: parsing "'' @ s @ ''": invalid syntax''))
         else let n = digits_value 0 body; v = (if neg then - n else n)
              in if v < - (2 ^ 63) \<or> 2 ^ 63 - 1 < v
                 then Inl (Plain (''strconv.Atoi: parsing "'' @ s @ ''": value out of range''))
                 else Inr v)\<close>

section \<open>The iSCSI disk descriptor\<close>

record Secrets =
  SecretsType :: string
  UserName :: string
  Password :: string
  UserNameIn :: string
  PasswordIn :: string

text \<open>\<open>Secrets{}\<close>, the zero value.\<close>

definition Secrets_zero :: Secrets where
  "Secrets_zero =
     \<lparr>SecretsType = [], UserName = [], Password = [], UserNameIn = [], PasswordIn = []\<rparr>"

record iscsiDisk =
  Portals :: "string list"
  Iqn :: string
  lun :: "32 word"
  Iface :: string
  chapDiscovery :: bool
  chapSession :: bool
  secret :: gomap
  sessionSecret :: Secrets
  discoverySecret :: Secrets
  InitiatorName :: string
  VolName :: string

record Connector =
  VolumeName :: string
  TargetIqn :: string
  TargetPortals :: "string list"
  Lun :: "32 word"
  DoCHAPDiscovery :: bool
  DiscoverySecrets :: Secrets
  SessionSecrets :: Secrets
  Interface :: string

text \<open>
  The fields of \<open>csi.NodePublishVolumeRequest\<close> that the node plugin reads; the
  filesystem type and the mount flags are those of the request's mount capability.
\<close>

record NodePublishVolumeRequest =
  VolumeId :: string
  VolumeContext :: gomap
  Readonly :: bool
  TargetPath :: string
  FsType :: string
  MountFlags :: "string list"

definition portalMounter :: "string \<Rightarrow> string" where
  "portalMounter portal =
     (if CHR '':'' \<notin> set portal then portal @ '':3260'' else portal)"

definition parseSecret :: "codec \<Rightarrow> string \<Rightarrow> gomap" where
  "parseSecret js secretParams =
     (case Unmarshal (decode_object js) secretParams of
        Inl e \<Rightarrow> []
      | Inr m \<Rightarrow> m)"

text \<open>
  Both parsers return the pair \<open>(Secrets, error)\<close> as the Go functions do; the error
  is \<open>None\<close> for nil.
\<close>

definition not_found :: "string \<Rightarrow> error" where
  "not_found k = Plain (k @ '' not found in secret'')"

definition parseSessionSecret :: "gomap \<Rightarrow> Secrets \<times> error option" where
  "parseSessionSecret secretParams =
     (if length secretParams = 0 then (Secrets_zero, None)
      else case map_of secretParams ''node.session.auth.username'' of
        None \<Rightarrow> (Secrets_zero, Some (not_found ''node.session.auth.username''))
      | Some u \<Rightarrow>
      (case map_of secretParams ''node.session.auth.password'' of
        None \<Rightarrow> (Secrets_zero, Some (not_found ''node.session.auth.password''))
      | Some p \<Rightarrow>
      (case map_of secretParams ''node.session.auth.username_in'' of
        None \<Rightarrow> (Secrets_zero, Some (not_found ''node.session.auth.username_in''))
      | Some ui \<Rightarrow>
      (case map_of secretParams ''node.session.auth.password_in'' of
        None \<Rightarrow> (Secrets_zero, Some (not_found ''node.session.auth.password_in''))
      | Some pi \<Rightarrow>
          (\<lparr>SecretsType = ''chap'', UserName = u, Password = p,
            UserNameIn = ui, PasswordIn = pi\<rparr>, None)))))"

definition parseDiscoverySecret :: "gomap \<Rightarrow> Secrets \<times> error option" where
  "parseDiscoverySecret secretParams =
     (if length secretParams = 0 then (Secrets_zero, None)
      else case map_of secretParams ''node.sendtargets.auth.username'' of
        None \<Rightarrow> (Secrets_zero, Some (not_found ''node.sendtargets.auth.username''))
      | Some u \<Rightarrow>
      (case map_of secretParams ''node.sendtargets.auth.password'' of
        None \<Rightarrow> (Secrets_zero, Some (not_found ''node.sendtargets.auth.password''))
      | Some p \<Rightarrow>
      (case map_of secretParams ''node.sendtargets.auth.username_in'' of
        None \<Rightarrow> (Secrets_zero, Some (not_found ''node.sendtargets.auth.username_in''))
      | Some ui \<Rightarrow>
      (case map_of secretParams ''node.sendtargets.auth.password_in'' of
        None \<Rightarrow> (Secrets_zero, Some (not_found ''node.sendtargets.auth.password_in''))
      | Some pi \<Rightarrow>
          (\<lparr>SecretsType = ''chap'', UserName = u, Password = p,
            UserNameIn = ui, PasswordIn = pi\<rparr>, None)))))"

text \<open>
  The portal list of \<open>getISCSIInfo\<close>: it stays empty unless the volume context has a
  non-empty \<open>portals\<close> value; only then is the target portal put first, followed by
  the decoded portals.
\<close>

definition portal_list :: "codec \<Rightarrow> string \<Rightarrow> string \<Rightarrow> error + string list" where
  "portal_list js tp portalList =
     (if length portalList > 0
      then (case Unmarshal (decode_strings js) portalList of
              Inl e \<Rightarrow> Inl e
            | Inr portals \<Rightarrow> Inr ([] @ [portalMounter tp] @ map portalMounter portals))
      else Inr [])"

definition getISCSIInfo :: "codec \<Rightarrow> NodePublishVolumeRequest \<Rightarrow> error + iscsiDisk" where
  "getISCSIInfo js req =
     (let volName = VolumeId req;
          tp = index (VolumeContext req) ''target_portal'';
          iqn' = index (VolumeContext req) ''target_iqn'';
          lun' = index (VolumeContext req) ''lun''
      in if tp = [] \<or> iqn' = [] \<or> lun' = []
         then Inl (Plain ''ISCSI target information is missing'')
         else
           let secretParams = index (VolumeContext req) ''secret'';
               secret' = parseSecret js secretParams
           in case parseSessionSecret secret' of
                (s1, Some e) \<Rightarrow> Inl e
              | (sessionSecret', None) \<Rightarrow>
             (case parseDiscoverySecret secret' of
                (s2, Some e) \<Rightarrow> Inl e
              | (discoverySecret', None) \<Rightarrow>
             (case portal_list js tp (index (VolumeContext req) ''portals'') of
                Inl e \<Rightarrow> Inl e
              | Inr bkportal \<Rightarrow>
                  let iface = index (VolumeContext req) ''iscsiInterface'';
                      initiatorName = index (VolumeContext req) ''initiatorName'';
                      chapDiscovery' =
                        (if index (VolumeContext req) ''discoveryCHAPAuth'' = ''false''
                         then False else True);
                      chapSession' =
                        (if index (VolumeContext req) ''sessionCHAPAuth'' = ''true''
                         then True else False)
                  in case (if lun' \<noteq> [] then Atoi lun' else Inr 0) of
                       Inl e \<Rightarrow> Inl e
                     | Inr l \<Rightarrow>
                         Inr \<lparr>Portals = bkportal, Iqn = iqn', lun = word_of_int l,
                              Iface = iface, chapDiscovery = chapDiscovery',
                              chapSession = chapSession', secret = secret',
                              sessionSecret = sessionSecret',
                              discoverySecret = discoverySecret',
                              InitiatorName = initiatorName, VolName = volName\<rparr>)))"

text \<open>
  \<open>buildISCSIConnector\<close>; the nil result is \<open>None\<close>. The two assignments under the
  \<open>if\<close> of the source store values the literal has stored already.
\<close>

definition buildISCSIConnector :: "iscsiDisk option \<Rightarrow> Connector option" where
  "buildISCSIConnector iscsiInfo =
     (case iscsiInfo of
        None \<Rightarrow> None
      | Some d \<Rightarrow>
          if VolName d = [] \<or> Iqn d = [] then None
          else
            let c = \<lparr>VolumeName = VolName d, TargetIqn = Iqn d, TargetPortals = Portals d,
                     Lun = lun d, DoCHAPDiscovery = chapDiscovery d,
                     DiscoverySecrets = discoverySecret d,
                     SessionSecrets = sessionSecret d, Interface = Iface d\<rparr>;
                c1 = (if sessionSecret d \<noteq> Secrets_zero
                      then (let c' = c\<lparr>SessionSecrets := sessionSecret d\<rparr>
                            in if discoverySecret d \<noteq> Secrets_zero
                               then c'\<lparr>DiscoverySecrets := discoverySecret d\<rparr> else c')
                      else c)
            in Some c1)"

section \<open>The controller\<close>

text \<open>
  The controller proxies to the volume-management API. \<open>viriumHttpClient\<close> is a
  parameter: method, URL and body give the response body or an error. Each function
  returns its result together with the API calls it made; the verbosity-gated
  diagnostics of the controller are left out.
\<close>

type_synonym http = "string \<Rightarrow> string \<Rightarrow> string \<Rightarrow> error + string"

type_synonym call = "string \<times> string \<times> string"

record driver =
  apiURL :: string
  initiatorName :: string

record CapacityRange =
  RequiredBytes :: "64 word"

record CreateVolumeRequest =
  cv_Name :: string
  cv_CapacityRange :: "CapacityRange option"

record Volume =
  vol_VolumeId :: string
  vol_CapacityBytes :: "64 word"
  vol_VolumeContext :: gomap

record DeleteVolumeRequest_csi =
  dv_VolumeId :: string

record ControllerExpandVolumeRequest =
  ex_VolumeId :: string
  ex_CapacityRange :: "CapacityRange option"

text \<open>
  \<open>CreateVolume\<close> reads \<open>req.CapacityRange.RequiredBytes\<close> with no nil check: a
  request without a capacity range panics.
\<close>

definition CreateVolume ::
  "codec \<Rightarrow> driver \<Rightarrow> http \<Rightarrow> CreateVolumeRequest \<Rightarrow> (error + Volume) \<times> call list" where
  "CreateVolume js d client req =
     (case cv_CapacityRange req of
        None \<Rightarrow> (Inl (Panic ''runtime error: invalid memory address or nil pointer dereference''), [])
      | Some cr \<Rightarrow>
          let url = apiURL d @ ''/api/volumes/create'';
              payload = VolumeRequest (initiatorName d) (RequiredBytes cr)
          in case encode_payload js payload of
               Inl err \<Rightarrow> (Inl (Plain (''failed to marshal request: '' @ Error err)), [])
             | Inr jsonData \<Rightarrow>
                 let calls = [(''POST'', url, jsonData)]
                 in case client ''POST'' url jsonData of
                      Inl err \<Rightarrow> (Inl (Plain (''API request failed: '' @ Error err)), calls)
                    | Inr resp \<Rightarrow>
                        (case decode_VolumeResponse js resp of
                           Inl err \<Rightarrow>
                             (Inl (Plain (''failed to parse volume response: '' @ Error err)),
                              calls)
                         | Inr volResp \<Rightarrow>
                             let portals = [] @ [TargetPortal volResp];
                                 portalList = encode_strings js portals
                             in (Inr \<lparr>vol_VolumeId = VolumeID volResp,
                                      vol_CapacityBytes = RequiredBytes cr,
                                      vol_VolumeContext =
                                        [(''portals'', portalList),
                                         (''targetPortal'', TargetPortal volResp),
                                         (''iqn'', Iqn_of volResp),
                                         (''lun'', Lun_of volResp),
                                         (''interface'', ''default''),
                                         (''discoveryCHAPAuth'', DiscoveryCHAPAuth volResp),
                                         (''sessionCHAPAuth'', SessionCHAPAuth volResp)]\<rparr>,
                                 calls)))"

definition DeleteVolume ::
  "codec \<Rightarrow> driver \<Rightarrow> http \<Rightarrow> DeleteVolumeRequest_csi \<Rightarrow> (error + unit) \<times> call list" where
  "DeleteVolume js d client req =
     (let volumeID = dv_VolumeId req
      in if volumeID = [] then (Inl (Plain ''volume ID is required''), [])
         else
           let url = apiURL d @ ''/api/volumes/delete'';
               payload = DeleteVolumeRequest volumeID
           in case encode_payload js payload of
                Inl err \<Rightarrow> (Inl (Plain (''failed to marshal request: '' @ Error err)), [])
              | Inr jsonData \<Rightarrow>
                  let calls = [(''DELETE'', url, jsonData)]
                  in case client ''DELETE'' url jsonData of
                       Inl err \<Rightarrow> (Inl (Plain (''API request failed: '' @ Error err)), calls)
                     | Inr resp \<Rightarrow> (Inr (), calls))"

text \<open>The result of a successful \<open>ControllerExpandVolume\<close> is its \<open>CapacityBytes\<close>.\<close>

definition ControllerExpandVolume ::
  "codec \<Rightarrow> driver \<Rightarrow> http \<Rightarrow> ControllerExpandVolumeRequest \<Rightarrow> (error + 64 word) \<times> call list"
  where
  "ControllerExpandVolume js d client req =
     (if length (ex_VolumeId req) = 0
      then (Inl (Status InvalidArgument ''Volume ID missing in request''), [])
      else case ex_CapacityRange req of
        None \<Rightarrow> (Inl (Status InvalidArgument ''Capacity Range missing in request''), [])
      | Some cr \<Rightarrow>
          let volSizeBytes = RequiredBytes cr;
              url = apiURL d @ ''/api/volumes/resize'';
              payload = VolumeResizeRequest (ex_VolumeId req) volSizeBytes
          in case encode_payload js payload of
               Inl err \<Rightarrow> (Inl (Plain (''failed to marshal request: '' @ Error err)), [])
             | Inr jsonData \<Rightarrow>
                 let calls = [(''POST'', url, jsonData)]
                 in case client ''POST'' url jsonData of
                      Inl err \<Rightarrow> (Inl (Plain (''API request failed: '' @ Error err)), calls)
                    | Inr resp \<Rightarrow>
                        (case decode_VolumeResponse js resp of
                           Inl err \<Rightarrow>
                             (Inl (Plain (''failed to parse volume response: '' @ Error err)),
                              calls)
                         | Inr volResp \<Rightarrow> (Inr (RequiredBytes cr), calls)))"

section \<open>Attach and detach\<close>

text \<open>
  Everything \<open>AttachDisk\<close> and \<open>DetachDisk\<close> do to the node goes through
  collaborators: the session connector, the mounter, the persistence store and the
  \<open>os\<close> package. They are the fields of an environment over a node state \<open>'w\<close>;
  each takes the state and returns its Go result with the next state. \<open>Connect\<close> is a
  method on the connector pointer, so it also returns the connector as it leaves it.
  The reference count of \<open>GetDeviceNameFromMount\<close> is a 64-bit \<open>int\<close>.
\<close>

record 'w env =
  driverName :: string
  Connect :: "Connector \<Rightarrow> 'w \<Rightarrow> (string \<times> error option \<times> Connector) \<times> 'w"
  IsLikelyNotMountPoint :: "string \<Rightarrow> 'w \<Rightarrow> (bool \<times> error option) \<times> 'w"
  MkdirAll :: "string \<Rightarrow> 'w \<Rightarrow> error option \<times> 'w"
  PersistConnector :: "Connector \<Rightarrow> string \<Rightarrow> 'w \<Rightarrow> error option \<times> 'w"
  FormatAndMount ::
    "string \<Rightarrow> string \<Rightarrow> string \<Rightarrow> string list \<Rightarrow> 'w \<Rightarrow> error option \<times> 'w"
  GetDeviceNameFromMount :: "string \<Rightarrow> 'w \<Rightarrow> (string \<times> 64 word \<times> error option) \<times> 'w"
  PathExists :: "string \<Rightarrow> 'w \<Rightarrow> (bool \<times> error option) \<times> 'w"
  GetConnectorFromFile :: "string \<Rightarrow> 'w \<Rightarrow> (error + Connector) \<times> 'w"
  Unmount :: "string \<Rightarrow> 'w \<Rightarrow> error option \<times> 'w"
  DisconnectVolume :: "Connector \<Rightarrow> 'w \<Rightarrow> error option \<times> 'w"
  Disconnect :: "string \<Rightarrow> string list \<Rightarrow> 'w \<Rightarrow> 'w"
  RemoveAll :: "string \<Rightarrow> 'w \<Rightarrow> error option \<times> 'w"
  Remove :: "string \<Rightarrow> 'w \<Rightarrow> error option \<times> 'w"

text \<open>
  The trace of a call: every collaborator call with its arguments and its result, and
  every log line (\<open>log.Printf\<close>, and \<open>klog\<close> with its severity and its format
  string), in program order.
\<close>

datatype severity = KInfo | KWarning | KError

datatype event =
    Printf string
  | Klog severity string
  | EConnect Connector string "error option"
  | EIsLikelyNotMountPoint string bool "error option"
  | EMkdirAll string "error option"
  | EPersistConnector Connector string "error option"
  | EFormatAndMount string string string "string list" "error option"
  | EGetDeviceNameFromMount string string "64 word" "error option"
  | EPathExists string bool "error option"
  | EGetConnectorFromFile string "error + Connector"
  | EUnmount string "error option"
  | EDisconnectVolume Connector "error option"
  | EDisconnect string "string list"
  | ERemoveAll string "error option"
  | ERemove string "error option"

record iscsiDiskMounter =
  disk :: iscsiDisk
  readOnly :: bool
  fsType :: string
  mountOptions :: "string list"
  targetPath :: string
  connector :: "Connector option"

record iscsiDiskUnmounter =
  udisk :: iscsiDisk

definition getIscsiInfoPath :: "string \<Rightarrow> string \<Rightarrow> string" where
  "getIscsiInfoPath dn volumeID =
     (let runPath = ''/var/run/'' @ dn
      in runPath @ ''/iscsi-'' @ volumeID @ ''.json'')"

definition getISCSIDiskMounter ::
  "iscsiDisk \<Rightarrow> NodePublishVolumeRequest \<Rightarrow> iscsiDiskMounter" where
  "getISCSIDiskMounter iscsiInfo req =
     \<lparr>disk = iscsiInfo, readOnly = Readonly req, fsType = FsType req,
      mountOptions = MountFlags req, targetPath = TargetPath req,
      connector = buildISCSIConnector (Some iscsiInfo)\<rparr>"

definition getISCSIDiskUnmounter :: "string \<Rightarrow> iscsiDiskUnmounter" where
  "getISCSIDiskUnmounter volumeId =
     \<lparr>udisk = \<lparr>Portals = [], Iqn = [], lun = 0, Iface = [], chapDiscovery = False,
               chapSession = False, secret = [], sessionSecret = Secrets_zero,
               discoverySecret = Secrets_zero, InitiatorName = [],
               VolName = volumeId\<rparr>\<rparr>"

text \<open>\<open>err != nil && !os.IsNotExist(err)\<close>.\<close>

definition other_than_not_exist :: "error option \<Rightarrow> bool" where
  "other_than_not_exist err = (case err of None \<Rightarrow> False | Some e \<Rightarrow> \<not> IsNotExist e)"

text \<open>An error under \<open>%v\<close>.\<close>

definition verb_v :: "error option \<Rightarrow> string" where
  "verb_v err = (case err of None \<Rightarrow> ''<nil>'' | Some e \<Rightarrow> Error e)"

definition AttachDisk ::
  "'w env \<Rightarrow> iscsiDiskMounter \<Rightarrow> 'w \<Rightarrow> (string \<times> error option) \<times> 'w \<times> event list" where
  "AttachDisk h b w0 =
     (let t0 = [Printf ''AttachDisk1'']
      in case connector b of
        None \<Rightarrow> (([], Some (Plain ''connector is nil'')), w0, t0)
      | Some c \<Rightarrow>
      let ((devicePath, err, c1), w1) = Connect h c w0;
          t1 = t0 @ [Printf ''AttachDisk2'', EConnect c devicePath err]
      in case err of
        Some e \<Rightarrow> (([], Some e), w1, t1 @ [Printf (''Error'' @ Error e)])
      | None \<Rightarrow>
      let t2 = t1 @ [Printf ''AttachDisk3'']
      in if devicePath = []
         then (([], Some (Plain ''connect reported success, but no path returned'')), w1, t2)
         else
      let mntPath = targetPath b;
          ((notMnt, err2), w2) = IsLikelyNotMountPoint h mntPath w1;
          t3 = t2 @ [Printf ''AttachDisk4'', EIsLikelyNotMountPoint mntPath notMnt err2]
      in if other_than_not_exist err2
         then (([], Some (Plain (''heuristic determination of mount point failed:''
                                 @ verb_v err2))), w2, t3)
         else
      let t4 = t3 @ [Printf ''AttachDisk5'']
      in if \<not> notMnt
         then (([], None), w2, t4 @ [Klog KInfo ''iscsi: %s already mounted''])
         else
      let (err3, w3) = MkdirAll h mntPath w2;
          t5 = t4 @ [Printf ''AttachDisk6'', EMkdirAll mntPath err3]
      in case err3 of
        Some e \<Rightarrow> (([], Some e), w3, t5 @ [Klog KError ''iscsi: failed to mkdir %s, error''])
      | None \<Rightarrow>
      let iscsiInfoPath = getIscsiInfoPath (driverName h) (VolName (disk b));
          (err4, w4) = PersistConnector h c1 iscsiInfoPath w3;
          t6 = t5 @ [Printf ''AttachDisk7'', EPersistConnector c1 iscsiInfoPath err4]
      in case err4 of
        Some e \<Rightarrow>
          (([], Some (Plain ''unable to create persistence file for connection'')), w4,
           t6 @ [Klog KError ''failed to persist connection info: %v, disconnecting volume and failing the publish request because persistence files are required for reliable Unpublish''])
      | None \<Rightarrow>
      let options = (if readOnly b then [] @ [''ro''] else [] @ [''rw'']) @ mountOptions b;
          (err5, w5) = FormatAndMount h devicePath mntPath (fsType b) options w4;
          t7 = t6 @ [Printf ''AttachDisk8'',
                     EFormatAndMount devicePath mntPath (fsType b) options err5]
                  @ (case err5 of
                       Some e \<Rightarrow> [Klog KError ''iscsi: failed to mount iscsi volume %s [%s] to %s, error %v'']
                     | None \<Rightarrow> [])
                  @ [Printf ''AttachDisk9'']
      in ((devicePath, err5), w5, t7))"

definition DetachDisk ::
  "'w env \<Rightarrow> iscsiDiskUnmounter \<Rightarrow> string \<Rightarrow> 'w \<Rightarrow> error option \<times> 'w \<times> event list" where
  "DetachDisk h c target w0 =
     (let ((dev, cnt, err), w1) = GetDeviceNameFromMount h target w0;
          t1 = [EGetDeviceNameFromMount target dev cnt err]
      in case err of
        Some e \<Rightarrow>
          (Some e, w1,
           t1 @ [Klog KError (''iscsi detach disk: failed to get device from mnt: %s''
                              @ [CHR 0x0A] @ ''Error: %v'')])
      | None \<Rightarrow>
      let ((pathExists, pathErr), w2) = PathExists h target w1;
          t2 = t1 @ [EPathExists target pathExists pathErr]
      in case pathErr of
        Some pe \<Rightarrow> (Some (Plain (''error checking if path exists: '' @ Error pe)), w2, t2)
      | None \<Rightarrow>
      if \<not> pathExists
      then (None, w2,
            t2 @ [Klog KWarning ''warning: Unmount skipped because path does not exist: %v''])
      else
      let iscsiInfoPath = getIscsiInfoPath (driverName h) (VolName (udisk c));
          (loaded, w3) = GetConnectorFromFile h iscsiInfoPath w2;
          t3 = t2 @ [Klog KInfo ''loading ISCSI connection info from %s'',
                     EGetConnectorFromFile iscsiInfoPath loaded]
      in case loaded of
        Inl e \<Rightarrow>
          if IsNotExist e
          then (None, w3,
                t3 @ [Klog KWarning ''assuming that ISCSI connection is already closed''])
          else (Some (Status Internal (Error e)), w3, t3)
      | Inr conn \<Rightarrow>
      let (uerr, w4) = Unmount h target w3;
          t4 = t3 @ [EUnmount target uerr]
      in case uerr of
        Some e \<Rightarrow>
          (Some e, w4,
           t4 @ [Klog KError (''iscsi detach disk: failed to unmount: %s''
                              @ [CHR 0x0A] @ ''Error: %v'')])
      | None \<Rightarrow>
      let cnt1 = cnt - 1
      in if cnt1 \<noteq> 0
         then (None, w4, t4 @ [Klog KError ''the device is in use : %d''])
         else
      let (derr, w5) = DisconnectVolume h conn w4;
          t5 = t4 @ [Klog KInfo ''detaching ISCSI device'', EDisconnectVolume conn derr]
      in case derr of
        Some e \<Rightarrow>
          (Some e, w5,
           t5 @ [Klog KError ''iscsi detach disk: failed to disconnect volume Error: %v''])
      | None \<Rightarrow>
      let w6 = Disconnect h (TargetIqn conn) (TargetPortals conn) w5;
          (rerr, w7) = RemoveAll h target w6;
          t7 = t5 @ [EDisconnect (TargetIqn conn) (TargetPortals conn), ERemoveAll target rerr]
                  @ (case rerr of
                       Some e \<Rightarrow> [Klog KError ''iscsi: failed to remove mount path Error: %v'']
                     | None \<Rightarrow> []);
          (rmerr, w8) = Remove h iscsiInfoPath w7;
          t8 = t7 @ [ERemove iscsiInfoPath rmerr]
      in case rmerr of
        Some e \<Rightarrow> (Some e, w8, t8)
      | None \<Rightarrow> (None, w8, t8 @ [Klog KInfo ''successfully detached ISCSI device'']))"

section \<open>A node\<close>

text \<open>
  A concrete environment: the state of one node, as far as the driver can see it, and
  the collaborators acting on it. \<open>failing\<close> lists the operations that are out of
  order on this node; an operation that is out of order returns an error and leaves
  the node as it is.
\<close>

datatype op =
    OpConnect | OpIsLikelyNotMountPoint | OpMkdirAll | OpPersistConnector
  | OpFormatAndMount | OpGetDeviceNameFromMount | OpPathExists | OpGetConnectorFromFile
  | OpUnmount | OpDisconnectVolume | OpRemoveAll | OpRemove

record node =
  failing :: "op list"
  mtab :: "(string \<times> string) list"
  dirs :: "string list"
  files :: "(string \<times> Connector) list"
  sessions :: "(string \<times> string) list"
  devices :: "string list"

definition broken :: "op \<Rightarrow> error" where
  "broken x = Plain ''input/output error''"

definition device_of :: "Connector \<Rightarrow> string" where
  "device_of c = ''/dev/disk/by-path/'' @ TargetIqn c"

text \<open>
  Modelled from the spec: the session establisher (\<open>Connect\<close>) is not in the sources.
  It logs in at every portal and returns one device path; it fails with a connect
  error when no portal yields a device, here when there is no portal at all.
\<close>

definition node_Connect ::
  "Connector \<Rightarrow> node \<Rightarrow> (string \<times> error option \<times> Connector) \<times> node" where
  "node_Connect c w =
     (if OpConnect \<in> set (failing w) then (([], Some (broken OpConnect), c), w)
      else if TargetPortals c = [] then (([], Some (Plain ''no device found''), c), w)
      else ((device_of c, None, c),
            w\<lparr>sessions := sessions w @ map (Pair (TargetIqn c)) (TargetPortals c),
              devices := List.insert (device_of c) (devices w)\<rparr>))"

text \<open>
  Modelled from the spec: "is this a mount point" of the filesystem layer. A path that
  does not exist is reported as not mounted, with a not-exist error.
\<close>

definition node_IsLikelyNotMountPoint ::
  "string \<Rightarrow> node \<Rightarrow> (bool \<times> error option) \<times> node" where
  "node_IsLikelyNotMountPoint p w =
     (if OpIsLikelyNotMountPoint \<in> set (failing w)
      then ((True, Some (broken OpIsLikelyNotMountPoint)), w)
      else if p \<notin> set (dirs w) then ((True, Some (NotExist ''no such file or directory'')), w)
      else ((p \<notin> snd ` set (mtab w), None), w))"

text \<open>\<open>os.MkdirAll\<close> succeeds on a path that exists already.\<close>

definition node_MkdirAll :: "string \<Rightarrow> node \<Rightarrow> error option \<times> node" where
  "node_MkdirAll p w =
     (if OpMkdirAll \<in> set (failing w) then (Some (broken OpMkdirAll), w)
      else (None, w\<lparr>dirs := List.insert p (dirs w)\<rparr>))"

text \<open>
  Modelled from the spec: the persistence store keeps one Connector per file path;
  loading a missing file signals the distinct not-found condition.
\<close>

definition node_PersistConnector ::
  "Connector \<Rightarrow> string \<Rightarrow> node \<Rightarrow> error option \<times> node" where
  "node_PersistConnector c p w =
     (if OpPersistConnector \<in> set (failing w) then (Some (broken OpPersistConnector), w)
      else (None, w\<lparr>files := (p, c) # filter (\<lambda>f. fst f \<noteq> p) (files w)\<rparr>))"

definition node_GetConnectorFromFile ::
  "string \<Rightarrow> node \<Rightarrow> (error + Connector) \<times> node" where
  "node_GetConnectorFromFile p w =
     (if OpGetConnectorFromFile \<in> set (failing w)
      then (Inl (broken OpGetConnectorFromFile), w)
      else case map_of (files w) p of
        None \<Rightarrow> (Inl (NotExist ''no such file or directory''), w)
      | Some c \<Rightarrow> (Inr c, w))"

text \<open>
  Modelled from the spec: "format and mount device" adds an entry (device, path) to the
  mount table; "unmount" removes the latest entry of the path and fails on a path that
  is not mounted; "resolve device name backing a mount point with reference count"
  gives the device of the first entry of the path and the number of entries of that
  device.
\<close>

definition node_FormatAndMount ::
  "string \<Rightarrow> string \<Rightarrow> string \<Rightarrow> string list \<Rightarrow> node \<Rightarrow> error option \<times> node" where
  "node_FormatAndMount dev p fs opts w =
     (if OpFormatAndMount \<in> set (failing w) then (Some (broken OpFormatAndMount), w)
      else (None, w\<lparr>mtab := mtab w @ [(dev, p)]\<rparr>))"

fun unmount_path :: "string \<Rightarrow> (string \<times> string) list \<Rightarrow> (string \<times> string) list" where
  "unmount_path p [] = []"
| "unmount_path p (m # ms) =
     (if snd m = p \<and> p \<notin> snd ` set ms then ms else m # unmount_path p ms)"

definition node_Unmount :: "string \<Rightarrow> node \<Rightarrow> error option \<times> node" where
  "node_Unmount p w =
     (if OpUnmount \<in> set (failing w) then (Some (broken OpUnmount), w)
      else if p \<notin> snd ` set (mtab w) then (Some (Plain ''not mounted''), w)
      else (None, w\<lparr>mtab := unmount_path p (mtab w)\<rparr>))"

definition node_GetDeviceNameFromMount ::
  "string \<Rightarrow> node \<Rightarrow> (string \<times> 64 word \<times> error option) \<times> node" where
  "node_GetDeviceNameFromMount p w =
     (if OpGetDeviceNameFromMount \<in> set (failing w)
      then (([], 0, Some (broken OpGetDeviceNameFromMount)), w)
      else
        let device = (case find (\<lambda>m. snd m = p) (mtab w) of
                        None \<Rightarrow> []
                      | Some m \<Rightarrow> fst m);
            refCount = length (filter (\<lambda>m. fst m = device) (mtab w))
        in ((device, of_nat refCount, None), w))"

definition node_PathExists :: "string \<Rightarrow> node \<Rightarrow> (bool \<times> error option) \<times> node" where
  "node_PathExists p w =
     (if OpPathExists \<in> set (failing w) then ((False, Some (broken OpPathExists)), w)
      else ((p \<in> set (dirs w), None), w))"

text \<open>
  Modelled from the spec: session teardown. \<open>DisconnectVolume\<close> removes the block
  device of the connector; \<open>Disconnect\<close> logs out of the target at each portal, best
  effort, and never fails its caller.
\<close>

definition node_DisconnectVolume :: "Connector \<Rightarrow> node \<Rightarrow> error option \<times> node" where
  "node_DisconnectVolume c w =
     (if OpDisconnectVolume \<in> set (failing w) then (Some (broken OpDisconnectVolume), w)
      else (None, w\<lparr>devices := removeAll (device_of c) (devices w)\<rparr>))"

definition node_Disconnect :: "string \<Rightarrow> string list \<Rightarrow> node \<Rightarrow> node" where
  "node_Disconnect iqn portals w =
     w\<lparr>sessions := filter (\<lambda>s. \<not> (fst s = iqn \<and> snd s \<in> set portals)) (sessions w)\<rparr>"

text \<open>
  \<open>os.RemoveAll\<close> succeeds on a path that is absent and fails on a mount point;
  \<open>os.Remove\<close> fails with a not-exist error on a file that is absent.
\<close>

definition node_RemoveAll :: "string \<Rightarrow> node \<Rightarrow> error option \<times> node" where
  "node_RemoveAll p w =
     (if OpRemoveAll \<in> set (failing w) then (Some (broken OpRemoveAll), w)
      else if p \<in> snd ` set (mtab w) then (Some (Plain ''device or resource busy''), w)
      else (None, w\<lparr>dirs := removeAll p (dirs w)\<rparr>))"

definition node_Remove :: "string \<Rightarrow> node \<Rightarrow> error option \<times> node" where
  "node_Remove p w =
     (if OpRemove \<in> set (failing w) then (Some (broken OpRemove), w)
      else case map_of (files w) p of
        None \<Rightarrow> (Some (NotExist ''no such file or directory''), w)
      | Some c \<Rightarrow> (None, w\<lparr>files := filter (\<lambda>f. fst f \<noteq> p) (files w)\<rparr>))"

definition node_env :: "string \<Rightarrow> node env" where
  "node_env dn =
     \<lparr>driverName = dn,
      Connect = node_Connect,
      IsLikelyNotMountPoint = node_IsLikelyNotMountPoint,
      MkdirAll = node_MkdirAll,
      PersistConnector = node_PersistConnector,
      FormatAndMount = node_FormatAndMount,
      GetDeviceNameFromMount = node_GetDeviceNameFromMount,
      PathExists = node_PathExists,
      GetConnectorFromFile = node_GetConnectorFromFile,
      Unmount = node_Unmount,
      DisconnectVolume = node_DisconnectVolume,
      Disconnect = node_Disconnect,
      RemoveAll = node_RemoveAll,
      Remove = node_Remove\<rparr>"

section \<open>Reading a trace\<close>

fun is_FormatAndMount :: "event \<Rightarrow> bool" where
  "is_FormatAndMount (EFormatAndMount d p f os r) = True"
| "is_FormatAndMount e = False"

text \<open>The calls that take an attachment down or delete something.\<close>

fun teardown_call :: "event \<Rightarrow> bool" where
  "teardown_call (EUnmount p r) = True"
| "teardown_call (EDisconnectVolume c r) = True"
| "teardown_call (EDisconnect i ps) = True"
| "teardown_call (ERemoveAll p r) = True"
| "teardown_call (ERemove p r) = True"
| "teardown_call e = False"

text \<open>A log line, as opposed to a call of a collaborator.\<close>

fun log_line :: "event \<Rightarrow> bool" where
  "log_line (Printf m) = True"
| "log_line (Klog s m) = True"
| "log_line e = False"

section \<open>Example inputs\<close>

text \<open>
  A codec that knows three documents and rejects every other input, a driver, and an
  API that answers every call with the same volume.
\<close>

fun join_commas :: "string list \<Rightarrow> string" where
  "join_commas [] = []"
| "join_commas [x] = x"
| "join_commas (x # y # ys) = x @ '','' @ join_commas (y # ys)"

definition example_codec :: codec where
  \<open>example_codec =
     \<lparr>decode_strings =
        (\<lambda>s. if s = ''["10.0.0.6"]'' then Inr [''10.0.0.6'']
             else Inl (Plain ''invalid character'')),
      decode_object =
        (\<lambda>s. if s = ''{"node.session.auth.username":"u"}''
             then Inr [(''node.session.auth.username'', ''u'')]
             else Inl (Plain ''invalid character'')),
      decode_VolumeResponse =
        (\<lambda>s. if s = ''{"volume_id":"vol-1"}''
             then Inr \<lparr>VolumeID = ''vol-1'', TargetPortal = ''10.0.0.5'',
                       Iqn_of = ''iqn.2025-01.test:vol1'', Lun_of = ''0'',
                       DiscoveryCHAPAuth = ''false'', SessionCHAPAuth = ''false''\<rparr>
             else Inl (Plain ''invalid character'')),
      encode_strings = (\<lambda>xs. ''['' @ join_commas (map (\<lambda>x. ''"'' @ x @ ''"'') xs) @ '']''),
      encode_payload = (\<lambda>p. Inr ''{}'')\<rparr>\<close>

definition example_driver :: driver where
  "example_driver = \<lparr>apiURL = ''http://virium'', initiatorName = ''iqn.2025-01.test:node''\<rparr>"

definition example_api :: http where
  \<open>example_api method url body = Inr ''{"volume_id":"vol-1"}''\<close>

text \<open>
  Publish requests for volume \<open>vol-1\<close>: one that names its target by
  \<open>target_portal\<close>, \<open>target_iqn\<close> and \<open>lun\<close> only, one that also lists a second
  portal, and one with no target portal.
\<close>

definition example_request :: NodePublishVolumeRequest where
  "example_request =
     \<lparr>VolumeId = ''vol-1'',
      VolumeContext = [(''target_portal'', ''10.0.0.5''),
                       (''target_iqn'', ''iqn.2025-01.test:vol1''),
                       (''lun'', ''0'')],
      Readonly = False, TargetPath = ''/mnt/a'', FsType = ''ext4'', MountFlags = []\<rparr>"

definition example_request_portals :: NodePublishVolumeRequest where
  \<open>example_request_portals =
     example_request
       \<lparr>VolumeContext := VolumeContext example_request
                            @ [(''portals'', ''["10.0.0.6"]''),
                               (''sessionCHAPAuth'', ''true'')]\<rparr>\<close>

definition example_request_no_portal :: NodePublishVolumeRequest where
  "example_request_no_portal =
     example_request
       \<lparr>VolumeContext := [(''target_iqn'', ''iqn.2025-01.test:vol1''), (''lun'', ''0'')]\<rparr>"

text \<open>A secret with the four session keys and none of the discovery keys.\<close>

definition example_secret :: gomap where
  "example_secret =
     [(''node.session.auth.username'', ''u''),
      (''node.session.auth.password'', ''p''),
      (''node.session.auth.username_in'', ''ui''),
      (''node.session.auth.password_in'', ''pi'')]"

text \<open>
  The connector of \<open>vol-1\<close>, the descriptor it is built from, the mounter of the
  publish request, the persistence file, and nodes: an empty one, one on
  which mounting is out of order, and one where the device of \<open>vol-1\<close> is mounted at
  \<open>/mnt/a\<close> and at \<open>/mnt/b\<close>.
\<close>

definition example_connector :: Connector where
  "example_connector =
     \<lparr>VolumeName = ''vol-1'', TargetIqn = ''iqn.2025-01.test:vol1'',
      TargetPortals = [''10.0.0.5:3260''], Lun = 0, DoCHAPDiscovery = True,
      DiscoverySecrets = Secrets_zero, SessionSecrets = Secrets_zero,
      Interface = []\<rparr>"

definition example_disk :: iscsiDisk where
  "example_disk =
     \<lparr>Portals = [''10.0.0.5:3260''], Iqn = ''iqn.2025-01.test:vol1'', lun = 0, Iface = [],
      chapDiscovery = True, chapSession = False, secret = [],
      sessionSecret = Secrets_zero, discoverySecret = Secrets_zero,
      InitiatorName = [], VolName = ''vol-1''\<rparr>"

definition example_mounter :: iscsiDiskMounter where
  "example_mounter = getISCSIDiskMounter example_disk example_request"

definition example_info_path :: string where
  "example_info_path = ''/var/run/virium-iscsi.csi.k8s.io/iscsi-vol-1.json''"

definition node_empty :: node where
  "node_empty =
     \<lparr>failing = [], mtab = [], dirs = [], files = [], sessions = [], devices = []\<rparr>"

definition node_mount_broken :: node where
  "node_mount_broken = node_empty\<lparr>failing := [OpFormatAndMount]\<rparr>"

definition node_shared :: node where
  "node_shared =
     \<lparr>failing = [],
      mtab = [(device_of example_connector, ''/mnt/a''),
              (device_of example_connector, ''/mnt/b'')],
      dirs = [''/mnt/a'', ''/mnt/b''],
      files = [(example_info_path, example_connector)],
      sessions = [(''iqn.2025-01.test:vol1'', ''10.0.0.5:3260'')],
      devices = [device_of example_connector]\<rparr>"

text \<open>A node on which the persistence store is out of order.\<close>

definition node_persist_broken :: node where
  "node_persist_broken = node_empty\<lparr>failing := [OpPersistConnector]\<rparr>"

text \<open>A node where \<open>/mnt/a\<close> exists and nothing is persisted for \<open>vol-1\<close>.\<close>

definition node_unrecorded :: node where
  "node_unrecorded = node_empty\<lparr>dirs := [''/mnt/a'']\<rparr>"

text \<open>A node on which the persistence file of \<open>vol-1\<close> cannot be read.\<close>

definition node_unreadable :: node where
  "node_unreadable = node_shared\<lparr>failing := [OpGetConnectorFromFile]\<rparr>"

text \<open>A node where the device of \<open>vol-1\<close> is mounted at \<open>/mnt/a\<close> only.\<close>

definition node_single :: node where
  "node_single = node_shared\<lparr>mtab := [(device_of example_connector, ''/mnt/a'')]\<rparr>"

definition example_env :: "node env" where
  "example_env = node_env ''virium-iscsi.csi.k8s.io''"

definition example_unmounter :: iscsiDiskUnmounter where
  "example_unmounter = getISCSIDiskUnmounter ''vol-1''"

text \<open>A volume request of 1 GiB, and requests with missing fields.\<close>

definition example_create :: CreateVolumeRequest where
  "example_create =
     \<lparr>cv_Name = ''pvc-1'', cv_CapacityRange = Some \<lparr>RequiredBytes = 1073741824\<rparr>\<rparr>"

definition example_delete_no_id :: DeleteVolumeRequest_csi where
  "example_delete_no_id = \<lparr>dv_VolumeId = []\<rparr>"

definition example_expand_no_range :: ControllerExpandVolumeRequest where
  "example_expand_no_range = \<lparr>ex_VolumeId = ''vol-1'', ex_CapacityRange = None\<rparr>"

section \<open>Reading a detach trace\<close>

text \<open>A successful unmount, and a successful deletion of the persistence file.\<close>

fun unmounted :: "event \<Rightarrow> bool" where
  "unmounted (EUnmount p None) = True"
| "unmounted e = False"

fun file_removed :: "event \<Rightarrow> bool" where
  "file_removed (ERemove p None) = True"
| "file_removed e = False"

text \<open>The calls that touch the session or delete something; the unmount is not one.\<close>

fun disconnect_or_delete :: "event \<Rightarrow> bool" where
  "disconnect_or_delete (EDisconnectVolume c r) = True"
| "disconnect_or_delete (EDisconnect i ps) = True"
| "disconnect_or_delete (ERemoveAll p r) = True"
| "disconnect_or_delete (ERemove p r) = True"
| "disconnect_or_delete e = False"

text \<open>
  A node on which a detach of the volume at the target path has nothing left to do:
  the mount table and the path can be looked up, and either the path is gone or the
  persistence file of the volume is.
\<close>

definition settled :: "string \<Rightarrow> string \<Rightarrow> string \<Rightarrow> node \<Rightarrow> bool" where
  "settled dn vol target w =
     (OpGetDeviceNameFromMount \<notin> set (failing w) \<and> OpPathExists \<notin> set (failing w) \<and>
      (target \<notin> set (dirs w) \<or>
       (OpGetConnectorFromFile \<notin> set (failing w) \<and>
        map_of (files w) (getIscsiInfoPath dn vol) = None)))"

section \<open>Lemmas\<close>

lemmas node_defs = node_env_def node_Connect_def node_IsLikelyNotMountPoint_def
  node_MkdirAll_def node_PersistConnector_def node_GetConnectorFromFile_def
  node_FormatAndMount_def node_Unmount_def node_GetDeviceNameFromMount_def
  node_PathExists_def node_DisconnectVolume_def node_Disconnect_def node_RemoveAll_def
  node_Remove_def broken_def device_of_def

lemmas example_defs = example_connector_def example_mounter_def example_disk_def
  example_request_def getISCSIDiskMounter_def buildISCSIConnector_def example_info_path_def
  node_empty_def node_mount_broken_def node_shared_def node_unrecorded_def
  node_unreadable_def node_single_def example_env_def example_unmounter_def
  getISCSIDiskUnmounter_def getIscsiInfoPath_def

lemmas info_defs = getISCSIInfo_def Let_def parseSecret_def Unmarshal_def
  parseSessionSecret_def parseDiscoverySecret_def portal_list_def portalMounter_def
  Atoi_def digit_def

lemma index_Cons: "index ((k, v) # m) k' = (if k = k' then v else index m k')"
  by (simp add: index_def)

lemma index_Nil: "index [] k = []"
  by (simp add: index_def)


lemma map_of_filter_out: "map_of (filter (\<lambda>f. fst f \<noteq> p) fs) p = None"
  by (induction fs) auto

lemma CreateVolume_context:
  assumes "fst (CreateVolume js d client req) = Inr v"
  shows "\<exists>pl tp i l dc sc. vol_VolumeContext v =
           [(''portals'', pl), (''targetPortal'', tp), (''iqn'', i), (''lun'', l),
            (''interface'', ''default''), (''discoveryCHAPAuth'', dc),
            (''sessionCHAPAuth'', sc)]"
  using assms
  unfolding CreateVolume_def Let_def
  by (auto split: option.splits sum.splits)

lemma getISCSIInfo_example_request:
  "getISCSIInfo js example_request =
     Inr \<lparr>Portals = [], Iqn = ''iqn.2025-01.test:vol1'', lun = 0, Iface = [],
          chapDiscovery = True, chapSession = False, secret = [],
          sessionSecret = Secrets_zero, discoverySecret = Secrets_zero,
          InitiatorName = [], VolName = ''vol-1''\<rparr>"
  by (simp add: info_defs example_request_def index_Cons index_Nil)

lemma getISCSIInfo_example_request_portals:
  "getISCSIInfo example_codec example_request_portals =
     Inr \<lparr>Portals = [''10.0.0.5:3260'', ''10.0.0.6:3260''],
          Iqn = ''iqn.2025-01.test:vol1'', lun = 0, Iface = [],
          chapDiscovery = True, chapSession = True, secret = [],
          sessionSecret = Secrets_zero, discoverySecret = Secrets_zero,
          InitiatorName = [], VolName = ''vol-1''\<rparr>"
  by (simp add: info_defs example_request_def example_request_portals_def
      example_codec_def index_Cons index_Nil)

section \<open>The disk descriptor and the request checks\<close>

text \<open>
  C1, at the input where it fails. A publish request that gives \<open>target_portal\<close>,
  \<open>target_iqn\<close> and \<open>lun\<close> and no \<open>portals\<close> value is accepted by
  \<open>getISCSIInfo\<close>, whatever the JSON codec, and the descriptor it builds has no
  portal at all: the target portal is put into the list only under the test for a
  non-empty \<open>portals\<close> value. The Connector built from the descriptor has the same
  empty list of target portals.
\<close>

theorem getISCSIInfo_drops_target_portal:
  "\<exists>d c. getISCSIInfo js example_request = Inr d \<and> Portals d = [] \<and>
          buildISCSIConnector (Some d) = Some c \<and> TargetPortals c = []"
  by (simp add: getISCSIInfo_example_request buildISCSIConnector_def Let_def)

lemma portalMounter_has_port: "CHR '':'' \<in> set (portalMounter p)"
  by (simp add: portalMounter_def)

lemma portalMounter_default_port: "CHR '':'' \<notin> set p \<Longrightarrow> portalMounter p = p @ '':3260''"
  by (simp add: portalMounter_def)

lemma portalMounter_keeps_port: "CHR '':'' \<in> set p \<Longrightarrow> portalMounter p = p"
  by (simp add: portalMounter_def)

text \<open>
  When the volume context has a non-empty \<open>portals\<close> value and \<open>getISCSIInfo\<close>
  builds a descriptor, the value decoded as a list of strings and the portal list is
  the target portal followed by the decoded portals, each passed through
  \<open>portalMounter\<close>: the list is not empty and every entry has a colon, with
  \<open>:3260\<close> appended to the entries that had none.
\<close>

theorem getISCSIInfo_portals_listed:
  assumes "getISCSIInfo js req = Inr d"
    and "index (VolumeContext req) ''portals'' \<noteq> []"
  shows "\<exists>ps. decode_strings js (index (VolumeContext req) ''portals'') = Inr ps \<and>
              Portals d = portalMounter (index (VolumeContext req) ''target_portal'')
                          # map portalMounter ps \<and>
              (\<forall>p \<in> set (Portals d). CHR '':'' \<in> set p)"
proof -
  from assms have "\<exists>ps. decode_strings js (index (VolumeContext req) ''portals'') = Inr ps \<and>
              Portals d = portalMounter (index (VolumeContext req) ''target_portal'')
                          # map portalMounter ps"
    unfolding getISCSIInfo_def Let_def portal_list_def Unmarshal_def
    by (auto split: if_splits prod.splits option.splits sum.splits)
  then show ?thesis
    by (auto simp: portalMounter_has_port)
qed

theorem getISCSIInfo_portals_listed_witness:
  "\<exists>d. getISCSIInfo example_codec example_request_portals = Inr d \<and>
        index (VolumeContext example_request_portals) ''portals'' \<noteq> [] \<and>
        Portals d = [''10.0.0.5:3260'', ''10.0.0.6:3260'']"
proof -
  obtain d where e: "getISCSIInfo example_codec example_request_portals = Inr d"
    using getISCSIInfo_example_request_portals by blast
  have i: "index (VolumeContext example_request_portals) ''portals'' \<noteq> []"
    by (simp add: example_request_portals_def example_request_def index_Cons index_Nil)
  from getISCSIInfo_portals_listed [OF e i]
  have "Portals d = [''10.0.0.5:3260'', ''10.0.0.6:3260'']"
    by (simp add: example_request_portals_def example_request_def index_Cons index_Nil
        example_codec_def portalMounter_def)
  with e i show ?thesis
    by blast
qed

text \<open>
  When the volume context has no \<open>portals\<close> value, or an empty one, every
  descriptor that \<open>getISCSIInfo\<close> builds has an empty portal list, whatever the
  target portal is.
\<close>

theorem getISCSIInfo_portals_not_listed:
  assumes "getISCSIInfo js req = Inr d"
    and "index (VolumeContext req) ''portals'' = []"
  shows "Portals d = []"
  using assms
  unfolding getISCSIInfo_def Let_def portal_list_def
  by (auto split: if_splits prod.splits option.splits sum.splits)

theorem getISCSIInfo_portals_not_listed_witness:
  "\<exists>d. getISCSIInfo example_codec example_request = Inr d \<and>
        index (VolumeContext example_request) ''portals'' = [] \<and>
        index (VolumeContext example_request) ''target_portal'' = ''10.0.0.5'' \<and>
        Portals d = []"
proof -
  obtain d where e: "getISCSIInfo example_codec example_request = Inr d"
    using getISCSIInfo_example_request by blast
  have i: "index (VolumeContext example_request) ''portals'' = []"
    and t: "index (VolumeContext example_request) ''target_portal'' = ''10.0.0.5''"
    by (simp_all add: example_request_def index_Cons index_Nil)
  from getISCSIInfo_portals_not_listed [OF e i] e i t show ?thesis
    by blast
qed

text \<open>
  C6. For a non-empty secret map, each of \<open>parseSessionSecret\<close> and
  \<open>parseDiscoverySecret\<close> returns either the secret with its four fields taken from
  the four keys of its block and the type \<open>chap\<close>, with no error, when all four keys
  are in the map; or the zero secret with the not-found error of a missing key. No
  other result is possible, so a partly filled secret is never returned.
\<close>

theorem parse_secrets_all_or_nothing:
  assumes "secretParams \<noteq> []"
  shows "(if list_all (\<lambda>k. map_of secretParams k \<noteq> None)
               [''node.session.auth.username'', ''node.session.auth.password'',
                ''node.session.auth.username_in'', ''node.session.auth.password_in'']
          then parseSessionSecret secretParams =
                 (\<lparr>SecretsType = ''chap'',
                   UserName = index secretParams ''node.session.auth.username'',
                   Password = index secretParams ''node.session.auth.password'',
                   UserNameIn = index secretParams ''node.session.auth.username_in'',
                   PasswordIn = index secretParams ''node.session.auth.password_in''\<rparr>,
                  None)
          else \<exists>k \<in> set [''node.session.auth.username'', ''node.session.auth.password'',
                          ''node.session.auth.username_in'',
                          ''node.session.auth.password_in''].
                 map_of secretParams k = None \<and>
                 parseSessionSecret secretParams = (Secrets_zero, Some (not_found k)))
       \<and> (if list_all (\<lambda>k. map_of secretParams k \<noteq> None)
               [''node.sendtargets.auth.username'', ''node.sendtargets.auth.password'',
                ''node.sendtargets.auth.username_in'',
                ''node.sendtargets.auth.password_in'']
          then parseDiscoverySecret secretParams =
                 (\<lparr>SecretsType = ''chap'',
                   UserName = index secretParams ''node.sendtargets.auth.username'',
                   Password = index secretParams ''node.sendtargets.auth.password'',
                   UserNameIn = index secretParams ''node.sendtargets.auth.username_in'',
                   PasswordIn = index secretParams ''node.sendtargets.auth.password_in''\<rparr>,
                  None)
          else \<exists>k \<in> set [''node.sendtargets.auth.username'',
                          ''node.sendtargets.auth.password'',
                          ''node.sendtargets.auth.username_in'',
                          ''node.sendtargets.auth.password_in''].
                 map_of secretParams k = None \<and>
                 parseDiscoverySecret secretParams = (Secrets_zero, Some (not_found k)))"
proof (rule conjI)
  show "if list_all (\<lambda>k. map_of secretParams k \<noteq> None)
               [''node.session.auth.username'', ''node.session.auth.password'',
                ''node.session.auth.username_in'', ''node.session.auth.password_in'']
          then parseSessionSecret secretParams =
                 (\<lparr>SecretsType = ''chap'',
                   UserName = index secretParams ''node.session.auth.username'',
                   Password = index secretParams ''node.session.auth.password'',
                   UserNameIn = index secretParams ''node.session.auth.username_in'',
                   PasswordIn = index secretParams ''node.session.auth.password_in''\<rparr>,
                  None)
          else \<exists>k \<in> set [''node.session.auth.username'', ''node.session.auth.password'',
                          ''node.session.auth.username_in'',
                          ''node.session.auth.password_in''].
                 map_of secretParams k = None \<and>
                 parseSessionSecret secretParams = (Secrets_zero, Some (not_found k))"
    using assms
    by (auto simp: parseSessionSecret_def index_def split: option.splits)
next
  show "if list_all (\<lambda>k. map_of secretParams k \<noteq> None)
               [''node.sendtargets.auth.username'', ''node.sendtargets.auth.password'',
                ''node.sendtargets.auth.username_in'',
                ''node.sendtargets.auth.password_in'']
          then parseDiscoverySecret secretParams =
                 (\<lparr>SecretsType = ''chap'',
                   UserName = index secretParams ''node.sendtargets.auth.username'',
                   Password = index secretParams ''node.sendtargets.auth.password'',
                   UserNameIn = index secretParams ''node.sendtargets.auth.username_in'',
                   PasswordIn = index secretParams ''node.sendtargets.auth.password_in''\<rparr>,
                  None)
          else \<exists>k \<in> set [''node.sendtargets.auth.username'',
                          ''node.sendtargets.auth.password'',
                          ''node.sendtargets.auth.username_in'',
                          ''node.sendtargets.auth.password_in''].
                 map_of secretParams k = None \<and>
                 parseDiscoverySecret secretParams = (Secrets_zero, Some (not_found k))"
    using assms
    by (auto simp: parseDiscoverySecret_def index_def split: option.splits)
qed

theorem parse_secrets_all_or_nothing_witness:
  "example_secret \<noteq> [] \<and>
   parseSessionSecret example_secret =
     (\<lparr>SecretsType = ''chap'', UserName = ''u'', Password = ''p'', UserNameIn = ''ui'',
       PasswordIn = ''pi''\<rparr>, None) \<and>
   parseDiscoverySecret example_secret =
     (Secrets_zero, Some (not_found ''node.sendtargets.auth.username''))"
proof -
  have ne: "example_secret \<noteq> []"
    by (simp add: example_secret_def)
  have d: "parseDiscoverySecret example_secret =
             (Secrets_zero, Some (not_found ''node.sendtargets.auth.username''))"
    by (simp add: parseDiscoverySecret_def example_secret_def)
  from parse_secrets_all_or_nothing [OF ne] ne d show ?thesis
    by (simp add: example_secret_def index_Cons index_Nil)
qed

text \<open>
  C10. Whenever \<open>getISCSIInfo\<close> builds a descriptor, discovery CHAP is on unless
  the volume context has exactly \<open>false\<close> under \<open>discoveryCHAPAuth\<close> (a missing
  key reads as the empty string, so it leaves it on), and session CHAP is off unless
  the volume context has exactly \<open>true\<close> under \<open>sessionCHAPAuth\<close>.
\<close>

theorem getISCSIInfo_chap_defaults:
  assumes "getISCSIInfo js req = Inr d"
  shows "chapDiscovery d = (index (VolumeContext req) ''discoveryCHAPAuth'' \<noteq> ''false'')
       \<and> chapSession d = (index (VolumeContext req) ''sessionCHAPAuth'' = ''true'')"
  using assms
  unfolding getISCSIInfo_def Let_def
  by (auto split: if_splits prod.splits option.splits sum.splits)

theorem getISCSIInfo_chap_defaults_witness:
  "\<exists>d. getISCSIInfo example_codec example_request_portals = Inr d \<and>
        index (VolumeContext example_request_portals) ''discoveryCHAPAuth'' = [] \<and>
        chapDiscovery d \<and>
        index (VolumeContext example_request_portals) ''sessionCHAPAuth'' = ''true'' \<and>
        chapSession d"
proof -
  obtain d where e: "getISCSIInfo example_codec example_request_portals = Inr d"
    using getISCSIInfo_example_request_portals by blast
  have i1: "index (VolumeContext example_request_portals) ''discoveryCHAPAuth'' = []"
    by (simp add: example_request_portals_def example_request_def index_Cons index_Nil)
  have i2: "index (VolumeContext example_request_portals) ''sessionCHAPAuth'' = ''true''"
    by (simp add: example_request_portals_def example_request_def index_Cons index_Nil)
  from getISCSIInfo_chap_defaults [OF e] i1 i2 have "chapDiscovery d \<and> chapSession d"
    by simp
  with e i1 i2 show ?thesis
    by blast
qed

text \<open>
  C9. The volume context of a successful \<open>CreateVolume\<close> has the portal under
  \<open>targetPortal\<close> and the IQN under \<open>iqn\<close>, and nothing under \<open>target_portal\<close>
  or \<open>target_iqn\<close>. So \<open>getISCSIInfo\<close> on any publish request that carries this
  volume context fails with its missing-target error, whatever the codec.
\<close>

theorem CreateVolume_context_rejected_by_getISCSIInfo:
  assumes "fst (CreateVolume js d client req) = Inr v"
    and "VolumeContext nreq = vol_VolumeContext v"
  shows "map_of (vol_VolumeContext v) ''targetPortal'' \<noteq> None \<and>
         map_of (vol_VolumeContext v) ''iqn'' \<noteq> None \<and>
         map_of (vol_VolumeContext v) ''target_portal'' = None \<and>
         map_of (vol_VolumeContext v) ''target_iqn'' = None \<and>
         getISCSIInfo js' nreq = Inl (Plain ''ISCSI target information is missing'')"
proof -
  from CreateVolume_context [OF assms(1)]
  obtain pl tp i l dc sc where ctx: "vol_VolumeContext v =
      [(''portals'', pl), (''targetPortal'', tp), (''iqn'', i), (''lun'', l),
       (''interface'', ''default''), (''discoveryCHAPAuth'', dc), (''sessionCHAPAuth'', sc)]"
    by blast
  with assms(2) have "index (VolumeContext nreq) ''target_portal'' = []"
    by (simp add: index_Cons index_Nil)
  then have "getISCSIInfo js' nreq = Inl (Plain ''ISCSI target information is missing'')"
    by (simp add: getISCSIInfo_def Let_def)
  with ctx show ?thesis
    by simp
qed

theorem CreateVolume_context_rejected_by_getISCSIInfo_witness:
  "\<exists>v. fst (CreateVolume example_codec example_driver example_api example_create) = Inr v \<and>
        VolumeContext (example_request\<lparr>VolumeContext := vol_VolumeContext v\<rparr>)
          = vol_VolumeContext v \<and>
        getISCSIInfo example_codec (example_request\<lparr>VolumeContext := vol_VolumeContext v\<rparr>)
          = Inl (Plain ''ISCSI target information is missing'')"
proof -
  obtain v where v: "fst (CreateVolume example_codec example_driver example_api example_create)
                       = Inr v"
    by (simp add: CreateVolume_def Let_def example_codec_def example_driver_def
        example_api_def example_create_def)
  have c: "VolumeContext (example_request\<lparr>VolumeContext := vol_VolumeContext v\<rparr>)
             = vol_VolumeContext v"
    by simp
  from CreateVolume_context_rejected_by_getISCSIInfo [OF v c, of example_codec] v c
  show ?thesis
    by blast
qed

text \<open>
  C8, at an input where it fails: a publish request with no \<open>target_portal\<close> is
  rejected by \<open>getISCSIInfo\<close> with a plain error, which carries no status and is
  therefore not classified invalid-argument.
\<close>

theorem getISCSIInfo_missing_portal_unclassified:
  "index (VolumeContext example_request_no_portal) ''target_portal'' = [] \<and>
   getISCSIInfo example_codec example_request_no_portal
     = Inl (Plain ''ISCSI target information is missing'') \<and>
   grpc_code (Plain ''ISCSI target information is missing'') \<noteq> InvalidArgument"
  by (simp add: getISCSIInfo_def Let_def example_request_no_portal_def example_request_def
      index_Cons index_Nil)

text \<open>
  C8, amended. A request that misses a required field is rejected at once, before any
  decoding and before any call of the API: \<open>getISCSIInfo\<close> without \<open>target_portal\<close>,
  \<open>target_iqn\<close> or \<open>lun\<close> returns the plain error "ISCSI target information is
  missing"; \<open>DeleteVolume\<close> on an empty volume ID returns an error and calls nothing;
  \<open>ControllerExpandVolume\<close> on an empty volume ID or without a capacity range returns
  an error classified invalid-argument and calls nothing.
\<close>

theorem missing_field_rejected:
  "(index (VolumeContext req) ''target_portal'' = [] \<or>
    index (VolumeContext req) ''target_iqn'' = [] \<or>
    index (VolumeContext req) ''lun'' = [] \<longrightarrow>
      getISCSIInfo js req = Inl (Plain ''ISCSI target information is missing''))
   \<and> (dv_VolumeId dreq = [] \<longrightarrow> (\<exists>e. DeleteVolume js d client dreq = (Inl e, [])))
   \<and> (ex_VolumeId ereq = [] \<or> ex_CapacityRange ereq = None \<longrightarrow>
        (\<exists>e. ControllerExpandVolume js d client ereq = (Inl e, []) \<and>
             grpc_code e = InvalidArgument))"
proof (intro conjI impI)
  assume "index (VolumeContext req) ''target_portal'' = [] \<or>
    index (VolumeContext req) ''target_iqn'' = [] \<or>
    index (VolumeContext req) ''lun'' = []"
  then show "getISCSIInfo js req = Inl (Plain ''ISCSI target information is missing'')"
    by (auto simp: getISCSIInfo_def Let_def)
next
  assume "dv_VolumeId dreq = []"
  then show "\<exists>e. DeleteVolume js d client dreq = (Inl e, [])"
    by (simp add: DeleteVolume_def Let_def)
next
  assume "ex_VolumeId ereq = [] \<or> ex_CapacityRange ereq = None"
  then show "\<exists>e. ControllerExpandVolume js d client ereq = (Inl e, []) \<and>
                 grpc_code e = InvalidArgument"
    by (auto simp: ControllerExpandVolume_def)
qed

theorem missing_field_rejected_witness:
  "index (VolumeContext example_request_no_portal) ''target_portal'' = [] \<and>
   getISCSIInfo example_codec example_request_no_portal
     = Inl (Plain ''ISCSI target information is missing'') \<and>
   dv_VolumeId example_delete_no_id = [] \<and>
   (\<exists>e. DeleteVolume example_codec example_driver example_api example_delete_no_id
          = (Inl e, [])) \<and>
   ex_CapacityRange example_expand_no_range = None \<and>
   (\<exists>e. ControllerExpandVolume example_codec example_driver example_api
          example_expand_no_range = (Inl e, []) \<and>
        grpc_code e = InvalidArgument)"
proof -
  have a: "index (VolumeContext example_request_no_portal) ''target_portal'' = []"
    by (simp add: example_request_no_portal_def example_request_def index_Cons index_Nil)
  have b: "dv_VolumeId example_delete_no_id = []"
    by (simp add: example_delete_no_id_def)
  have c: "ex_CapacityRange example_expand_no_range = None"
    by (simp add: example_expand_no_range_def)
  from missing_field_rejected [of example_request_no_portal example_codec
      example_delete_no_id example_driver example_api example_expand_no_range] a b c
  show ?thesis
    by simp
qed

section \<open>Attach\<close>

lemma triple_collapse: "x = (fst x, fst (snd x), snd (snd x))"
  by simp

text \<open>
  The trace of an \<open>AttachDisk\<close> call that reaches the mount: every step up to
  \<open>FormatAndMount\<close> has been taken and has succeeded.
\<close>

lemma AttachDisk_mount_shape_run:
  "case AttachDisk h b w of (res, w', tr) \<Rightarrow>
     \<forall>d p f os r. EFormatAndMount d p f os r \<in> set tr \<longrightarrow>
       (\<exists>c c1 n e2 w4.
           connector b = Some c \<and> d \<noteq> [] \<and> res = (d, r) \<and>
           FormatAndMount h d p f os w4 = (r, w') \<and>
           tr = [Printf ''AttachDisk1'', Printf ''AttachDisk2'', EConnect c d None,
                 Printf ''AttachDisk3'', Printf ''AttachDisk4'',
                 EIsLikelyNotMountPoint p n e2, Printf ''AttachDisk5'',
                 Printf ''AttachDisk6'', EMkdirAll p None, Printf ''AttachDisk7'',
                 EPersistConnector c1 (getIscsiInfoPath (driverName h) (VolName (disk b))) None,
                 Printf ''AttachDisk8'', EFormatAndMount d p f os r]
                @ (case r of
                     Some e \<Rightarrow> [Klog KError ''iscsi: failed to mount iscsi volume %s [%s] to %s, error %v'']
                   | None \<Rightarrow> [])
                @ [Printf ''AttachDisk9''])"
  by (auto simp: AttachDisk_def Let_def split: prod.split option.split)

lemma AttachDisk_mount_shape:
  assumes "AttachDisk h b w = (res, w', tr)"
    and "EFormatAndMount d p f os r \<in> set tr"
  shows "\<exists>c c1 n e2 w4.
           connector b = Some c \<and> d \<noteq> [] \<and> res = (d, r) \<and>
           FormatAndMount h d p f os w4 = (r, w') \<and>
           tr = [Printf ''AttachDisk1'', Printf ''AttachDisk2'', EConnect c d None,
                 Printf ''AttachDisk3'', Printf ''AttachDisk4'',
                 EIsLikelyNotMountPoint p n e2, Printf ''AttachDisk5'',
                 Printf ''AttachDisk6'', EMkdirAll p None, Printf ''AttachDisk7'',
                 EPersistConnector c1 (getIscsiInfoPath (driverName h) (VolName (disk b))) None,
                 Printf ''AttachDisk8'', EFormatAndMount d p f os r]
                @ (case r of
                     Some e \<Rightarrow> [Klog KError ''iscsi: failed to mount iscsi volume %s [%s] to %s, error %v'']
                   | None \<Rightarrow> [])
                @ [Printf ''AttachDisk9'']"
  using AttachDisk_mount_shape_run [where h = h and b = b and w = w] assms
  by (simp only: prod.case, blast?)

text \<open>
  The steps of an \<open>AttachDisk\<close> call that reaches the mount, with the node state
  each collaborator received and returned: the connector of the mounter goes to
  \<open>Connect\<close>, the connector as \<open>Connect\<close> left it goes to \<open>PersistConnector\<close>, and
  \<open>FormatAndMount\<close> runs on the state that \<open>PersistConnector\<close> returned.
\<close>

lemma AttachDisk_mount_steps_run:
  "case AttachDisk h b w of (res, w', tr) \<Rightarrow>
     \<forall>d p f os r. EFormatAndMount d p f os r \<in> set tr \<longrightarrow>
       (\<exists>c c1 w1 n e2 w2 w3 w4.
           connector b = Some c \<and> d \<noteq> [] \<and> res = (d, r) \<and> p = targetPath b \<and>
           Connect h c w = ((d, None, c1), w1) \<and>
           IsLikelyNotMountPoint h p w1 = ((n, e2), w2) \<and>
           MkdirAll h p w2 = (None, w3) \<and>
           PersistConnector h c1 (getIscsiInfoPath (driverName h) (VolName (disk b))) w3
             = (None, w4) \<and>
           FormatAndMount h d p f os w4 = (r, w') \<and>
           tr = [Printf ''AttachDisk1'', Printf ''AttachDisk2'', EConnect c d None,
                 Printf ''AttachDisk3'', Printf ''AttachDisk4'',
                 EIsLikelyNotMountPoint p n e2, Printf ''AttachDisk5'',
                 Printf ''AttachDisk6'', EMkdirAll p None, Printf ''AttachDisk7'',
                 EPersistConnector c1 (getIscsiInfoPath (driverName h) (VolName (disk b))) None,
                 Printf ''AttachDisk8'', EFormatAndMount d p f os r]
                @ (case r of
                     Some e \<Rightarrow> [Klog KError ''iscsi: failed to mount iscsi volume %s [%s] to %s, error %v'']
                   | None \<Rightarrow> [])
                @ [Printf ''AttachDisk9''])"
  by (auto simp: AttachDisk_def Let_def split: prod.split option.split)

lemma AttachDisk_mount_steps:
  assumes "AttachDisk h b w = (res, w', tr)"
    and "EFormatAndMount d p f os r \<in> set tr"
  shows "\<exists>c c1 w1 n e2 w2 w3 w4.
           connector b = Some c \<and> d \<noteq> [] \<and> res = (d, r) \<and> p = targetPath b \<and>
           Connect h c w = ((d, None, c1), w1) \<and>
           IsLikelyNotMountPoint h p w1 = ((n, e2), w2) \<and>
           MkdirAll h p w2 = (None, w3) \<and>
           PersistConnector h c1 (getIscsiInfoPath (driverName h) (VolName (disk b))) w3
             = (None, w4) \<and>
           FormatAndMount h d p f os w4 = (r, w') \<and>
           tr = [Printf ''AttachDisk1'', Printf ''AttachDisk2'', EConnect c d None,
                 Printf ''AttachDisk3'', Printf ''AttachDisk4'',
                 EIsLikelyNotMountPoint p n e2, Printf ''AttachDisk5'',
                 Printf ''AttachDisk6'', EMkdirAll p None, Printf ''AttachDisk7'',
                 EPersistConnector c1 (getIscsiInfoPath (driverName h) (VolName (disk b))) None,
                 Printf ''AttachDisk8'', EFormatAndMount d p f os r]
                @ (case r of
                     Some e \<Rightarrow> [Klog KError ''iscsi: failed to mount iscsi volume %s [%s] to %s, error %v'']
                   | None \<Rightarrow> [])
                @ [Printf ''AttachDisk9'']"
  using AttachDisk_mount_steps_run [where h = h and b = b and w = w] assms
  by (simp only: prod.case, blast?)

lemma AttachDisk_persist_failure_steps_run:
  "case AttachDisk h b w of (res, w', tr) \<Rightarrow>
     \<forall>c1 ip e. EPersistConnector c1 ip (Some e) \<in> set tr \<longrightarrow>
        res = ([], Some (Plain ''unable to create persistence file for connection'')) \<and>
        \<not> list_ex is_FormatAndMount tr \<and>
        ip = getIscsiInfoPath (driverName h) (VolName (disk b)) \<and>
        (\<exists>c d w1 n e2 w2 w3.
           connector b = Some c \<and> d \<noteq> [] \<and>
           Connect h c w = ((d, None, c1), w1) \<and>
           IsLikelyNotMountPoint h (targetPath b) w1 = ((n, e2), w2) \<and>
           MkdirAll h (targetPath b) w2 = (None, w3) \<and>
           PersistConnector h c1 ip w3 = (Some e, w'))"
  by (auto simp: AttachDisk_def Let_def split: prod.split option.split)

lemma AttachDisk_persist_failure_steps:
  assumes "AttachDisk h b w = (res, w', tr)"
    and "EPersistConnector c1 ip (Some e) \<in> set tr"
  shows "res = ([], Some (Plain ''unable to create persistence file for connection'')) \<and>
         \<not> list_ex is_FormatAndMount tr \<and>
         ip = getIscsiInfoPath (driverName h) (VolName (disk b)) \<and>
         (\<exists>c d w1 n e2 w2 w3.
            connector b = Some c \<and> d \<noteq> [] \<and>
            Connect h c w = ((d, None, c1), w1) \<and>
            IsLikelyNotMountPoint h (targetPath b) w1 = ((n, e2), w2) \<and>
            MkdirAll h (targetPath b) w2 = (None, w3) \<and>
            PersistConnector h c1 ip w3 = (Some e, w'))"
  using AttachDisk_persist_failure_steps_run [where h = h and b = b and w = w] assms
  by (simp only: prod.case, blast?)

lemma node_PersistConnector_stores:
  "node_PersistConnector c p w = (None, w1) \<Longrightarrow> map_of (files w1) p = Some c"
  by (auto simp: node_PersistConnector_def split: if_splits)

lemma node_FormatAndMount_frame:
  "node_FormatAndMount d p f os w = (r, w1) \<Longrightarrow> files w1 = files w"
  by (auto simp: node_FormatAndMount_def split: if_splits)

lemma attach_on_node_empty:
  "AttachDisk example_env example_mounter node_empty =
     ((device_of example_connector, None),
      \<lparr>failing = [], mtab = [(device_of example_connector, ''/mnt/a'')],
       dirs = [''/mnt/a''], files = [(example_info_path, example_connector)],
       sessions = [(''iqn.2025-01.test:vol1'', ''10.0.0.5:3260'')],
       devices = [device_of example_connector]\<rparr>,
      [Printf ''AttachDisk1'', Printf ''AttachDisk2'',
       EConnect example_connector (device_of example_connector) None,
       Printf ''AttachDisk3'', Printf ''AttachDisk4'',
       EIsLikelyNotMountPoint ''/mnt/a'' True (Some (NotExist ''no such file or directory'')),
       Printf ''AttachDisk5'', Printf ''AttachDisk6'', EMkdirAll ''/mnt/a'' None,
       Printf ''AttachDisk7'', EPersistConnector example_connector example_info_path None,
       Printf ''AttachDisk8'',
       EFormatAndMount (device_of example_connector) ''/mnt/a'' ''ext4'' [''rw''] None,
       Printf ''AttachDisk9''])"
  by (simp add: AttachDisk_def Let_def node_defs example_defs other_than_not_exist_def)

lemma attach_on_node_persist_broken:
  "AttachDisk example_env example_mounter node_persist_broken =
     (([], Some (Plain ''unable to create persistence file for connection'')),
      \<lparr>failing = [OpPersistConnector], mtab = [], dirs = [''/mnt/a''], files = [],
       sessions = [(''iqn.2025-01.test:vol1'', ''10.0.0.5:3260'')],
       devices = [device_of example_connector]\<rparr>,
      [Printf ''AttachDisk1'', Printf ''AttachDisk2'',
       EConnect example_connector (device_of example_connector) None,
       Printf ''AttachDisk3'', Printf ''AttachDisk4'',
       EIsLikelyNotMountPoint ''/mnt/a'' True (Some (NotExist ''no such file or directory'')),
       Printf ''AttachDisk5'', Printf ''AttachDisk6'', EMkdirAll ''/mnt/a'' None,
       Printf ''AttachDisk7'',
       EPersistConnector example_connector example_info_path
         (Some (Plain ''input/output error'')),
       Klog KError ''failed to persist connection info: %v, disconnecting volume and failing the publish request because persistence files are required for reliable Unpublish''])"
  by (simp add: AttachDisk_def Let_def node_defs example_defs other_than_not_exist_def
      node_persist_broken_def)

lemma attach_on_node_mount_broken:
  "AttachDisk example_env example_mounter node_mount_broken =
     ((device_of example_connector, Some (Plain ''input/output error'')),
      \<lparr>failing = [OpFormatAndMount], mtab = [], dirs = [''/mnt/a''],
       files = [(example_info_path, example_connector)],
       sessions = [(''iqn.2025-01.test:vol1'', ''10.0.0.5:3260'')],
       devices = [device_of example_connector]\<rparr>,
      [Printf ''AttachDisk1'', Printf ''AttachDisk2'',
       EConnect example_connector (device_of example_connector) None,
       Printf ''AttachDisk3'', Printf ''AttachDisk4'',
       EIsLikelyNotMountPoint ''/mnt/a'' True (Some (NotExist ''no such file or directory'')),
       Printf ''AttachDisk5'', Printf ''AttachDisk6'', EMkdirAll ''/mnt/a'' None,
       Printf ''AttachDisk7'', EPersistConnector example_connector example_info_path None,
       Printf ''AttachDisk8'',
       EFormatAndMount (device_of example_connector) ''/mnt/a'' ''ext4'' [''rw'']
         (Some (Plain ''input/output error'')),
       Klog KError ''iscsi: failed to mount iscsi volume %s [%s] to %s, error %v'',
       Printf ''AttachDisk9''])"
  by (simp add: AttachDisk_def Let_def node_defs example_defs other_than_not_exist_def)

text \<open>
  C2. In every \<open>AttachDisk\<close> call whose trace has a \<open>FormatAndMount\<close> call, the
  steps ran in this order, each on the node state the step before it returned: the
  Connector of the mounter went to \<open>Connect\<close>, which returned the device path, not
  empty, and no error; \<open>PersistConnector\<close> wrote the Connector as \<open>Connect\<close> left
  it to the persistence file of the volume and returned no error; and
  \<open>FormatAndMount\<close> mounted that device on the state that \<open>PersistConnector\<close>
  returned. The trace has the three calls in this order, and nothing before the mount
  is a mount. If a \<open>PersistConnector\<close> call returned an error, it was the call for
  the Connector as \<open>Connect\<close> left it, the node is left as that call returned it,
  \<open>AttachDisk\<close> returns the persistence error, and its trace has no
  \<open>FormatAndMount\<close> call.
\<close>

theorem AttachDisk_persists_between_connect_and_mount:
  assumes "AttachDisk h b w = (res, w', tr)"
  shows "(\<forall>d p f os r. EFormatAndMount d p f os r \<in> set tr \<longrightarrow>
            (\<exists>xs ys zs us c c1 w1 n e2 w2 w3 w4.
               tr = xs @ [EConnect c d None] @ ys
                    @ [EPersistConnector c1
                         (getIscsiInfoPath (driverName h) (VolName (disk b))) None]
                    @ zs @ [EFormatAndMount d p f os r] @ us \<and>
               d \<noteq> [] \<and> \<not> list_ex is_FormatAndMount (xs @ ys @ zs) \<and>
               connector b = Some c \<and> p = targetPath b \<and>
               Connect h c w = ((d, None, c1), w1) \<and>
               IsLikelyNotMountPoint h p w1 = ((n, e2), w2) \<and>
               MkdirAll h p w2 = (None, w3) \<and>
               PersistConnector h c1 (getIscsiInfoPath (driverName h) (VolName (disk b))) w3
                 = (None, w4) \<and>
               FormatAndMount h d p f os w4 = (r, w') \<and> res = (d, r)))
       \<and> (\<forall>c1 ip e. EPersistConnector c1 ip (Some e) \<in> set tr \<longrightarrow>
            res = ([], Some (Plain ''unable to create persistence file for connection'')) \<and>
            \<not> list_ex is_FormatAndMount tr \<and>
            ip = getIscsiInfoPath (driverName h) (VolName (disk b)) \<and>
            (\<exists>c d w1 n e2 w2 w3.
               connector b = Some c \<and> d \<noteq> [] \<and>
               Connect h c w = ((d, None, c1), w1) \<and>
               IsLikelyNotMountPoint h (targetPath b) w1 = ((n, e2), w2) \<and>
               MkdirAll h (targetPath b) w2 = (None, w3) \<and>
               PersistConnector h c1 ip w3 = (Some e, w')))"
proof (intro conjI allI impI)
  fix d p f os r
  assume m: "EFormatAndMount d p f os r \<in> set tr"
  let ?ip = "getIscsiInfoPath (driverName h) (VolName (disk b))"
  from AttachDisk_mount_steps [OF assms m]
  obtain c c1 w1 n e2 w2 w3 w4 where d: "d \<noteq> []"
    and steps: "connector b = Some c" "p = targetPath b" "res = (d, r)"
      "Connect h c w = ((d, None, c1), w1)"
      "IsLikelyNotMountPoint h p w1 = ((n, e2), w2)"
      "MkdirAll h p w2 = (None, w3)"
      "PersistConnector h c1 ?ip w3 = (None, w4)"
      "FormatAndMount h d p f os w4 = (r, w')"
    and tr: "tr = [Printf ''AttachDisk1'', Printf ''AttachDisk2'', EConnect c d None,
                 Printf ''AttachDisk3'', Printf ''AttachDisk4'',
                 EIsLikelyNotMountPoint p n e2, Printf ''AttachDisk5'',
                 Printf ''AttachDisk6'', EMkdirAll p None, Printf ''AttachDisk7'',
                 EPersistConnector c1 ?ip None,
                 Printf ''AttachDisk8'', EFormatAndMount d p f os r]
                @ (case r of
                     Some e \<Rightarrow> [Klog KError ''iscsi: failed to mount iscsi volume %s [%s] to %s, error %v'']
                   | None \<Rightarrow> [])
                @ [Printf ''AttachDisk9'']"
    by blast
  let ?xs = "[Printf ''AttachDisk1'', Printf ''AttachDisk2'']"
  let ?ys = "[Printf ''AttachDisk3'', Printf ''AttachDisk4'',
              EIsLikelyNotMountPoint p n e2, Printf ''AttachDisk5'',
              Printf ''AttachDisk6'', EMkdirAll p None, Printf ''AttachDisk7'']"
  let ?zs = "[Printf ''AttachDisk8'']"
  let ?us = "(case r of
                Some e \<Rightarrow> [Klog KError ''iscsi: failed to mount iscsi volume %s [%s] to %s, error %v'']
              | None \<Rightarrow> [])
             @ [Printf ''AttachDisk9'']"
  have "tr = ?xs @ [EConnect c d None] @ ?ys @ [EPersistConnector c1 ?ip None]
             @ ?zs @ [EFormatAndMount d p f os r] @ ?us"
    by (simp add: tr)
  moreover have "\<not> list_ex is_FormatAndMount (?xs @ ?ys @ ?zs)"
    by simp
  ultimately show "\<exists>xs ys zs us c c1 w1 n e2 w2 w3 w4.
               tr = xs @ [EConnect c d None] @ ys @ [EPersistConnector c1 ?ip None]
                    @ zs @ [EFormatAndMount d p f os r] @ us \<and>
               d \<noteq> [] \<and> \<not> list_ex is_FormatAndMount (xs @ ys @ zs) \<and>
               connector b = Some c \<and> p = targetPath b \<and>
               Connect h c w = ((d, None, c1), w1) \<and>
               IsLikelyNotMountPoint h p w1 = ((n, e2), w2) \<and>
               MkdirAll h p w2 = (None, w3) \<and>
               PersistConnector h c1 ?ip w3 = (None, w4) \<and>
               FormatAndMount h d p f os w4 = (r, w') \<and> res = (d, r)"
    using d steps by blast
next
  fix c1 ip e
  assume "EPersistConnector c1 ip (Some e) \<in> set tr"
  from AttachDisk_persist_failure_steps [OF assms this]
  show "res = ([], Some (Plain ''unable to create persistence file for connection''))"
    and "\<not> list_ex is_FormatAndMount tr"
    and "ip = getIscsiInfoPath (driverName h) (VolName (disk b))"
    and "\<exists>c d w1 n e2 w2 w3.
               connector b = Some c \<and> d \<noteq> [] \<and>
               Connect h c w = ((d, None, c1), w1) \<and>
               IsLikelyNotMountPoint h (targetPath b) w1 = ((n, e2), w2) \<and>
               MkdirAll h (targetPath b) w2 = (None, w3) \<and>
               PersistConnector h c1 ip w3 = (Some e, w')"
    by blast+
qed

theorem AttachDisk_persists_between_connect_and_mount_witness:
  "EFormatAndMount (device_of example_connector) ''/mnt/a'' ''ext4'' [''rw''] None
      \<in> set (snd (snd (AttachDisk example_env example_mounter node_empty)))
   \<and> connector example_mounter = Some example_connector
   \<and> (\<exists>xs ys zs us.
        snd (snd (AttachDisk example_env example_mounter node_empty)) =
          xs @ [EConnect example_connector (device_of example_connector) None] @ ys
          @ [EPersistConnector example_connector example_info_path None] @ zs
          @ [EFormatAndMount (device_of example_connector) ''/mnt/a'' ''ext4'' [''rw''] None]
          @ us)
   \<and> (\<exists>w3 w4.
        node_PersistConnector example_connector example_info_path w3 = (None, w4) \<and>
        node_FormatAndMount (device_of example_connector) ''/mnt/a'' ''ext4'' [''rw''] w4
          = (None, fst (snd (AttachDisk example_env example_mounter node_empty))))
   \<and> map_of (files (fst (snd (AttachDisk example_env example_mounter node_empty))))
        example_info_path = Some example_connector
   \<and> EPersistConnector example_connector example_info_path
         (Some (Plain ''input/output error''))
       \<in> set (snd (snd (AttachDisk example_env example_mounter node_persist_broken)))
   \<and> fst (AttachDisk example_env example_mounter node_persist_broken) =
       ([], Some (Plain ''unable to create persistence file for connection''))
   \<and> \<not> list_ex is_FormatAndMount
         (snd (snd (AttachDisk example_env example_mounter node_persist_broken)))
   \<and> mtab (fst (snd (AttachDisk example_env example_mounter node_persist_broken))) = []"
proof -
  let ?A = "AttachDisk example_env example_mounter node_empty"
  let ?B = "AttachDisk example_env example_mounter node_persist_broken"
  have m: "EFormatAndMount (device_of example_connector) ''/mnt/a'' ''ext4'' [''rw''] None
             \<in> set (snd (snd ?A))"
    by (simp add: attach_on_node_empty)
  have p: "EPersistConnector example_connector example_info_path
             (Some (Plain ''input/output error'')) \<in> set (snd (snd ?B))"
    by (simp add: attach_on_node_persist_broken)
  have ip: "getIscsiInfoPath (driverName example_env) (VolName (disk example_mounter))
              = example_info_path"
    by (simp add: example_defs node_env_def)
  have cn: "connector example_mounter = Some example_connector"
    by (simp add: example_defs Let_def Secrets_zero_def)
  have sel: "Connect example_env = node_Connect"
    "PersistConnector example_env = node_PersistConnector"
    "FormatAndMount example_env = node_FormatAndMount"
    by (simp_all add: example_env_def node_env_def)
  from AttachDisk_persists_between_connect_and_mount [OF triple_collapse [of ?A]] m
  obtain xs ys zs us c c1 w1 w3 w4 where
    tr: "snd (snd ?A) = xs @ [EConnect c (device_of example_connector) None] @ ys
        @ [EPersistConnector c1 example_info_path None] @ zs
        @ [EFormatAndMount (device_of example_connector) ''/mnt/a'' ''ext4'' [''rw''] None]
        @ us"
    and c: "connector example_mounter = Some c"
    and co: "node_Connect c node_empty = ((device_of example_connector, None, c1), w1)"
    and pe: "node_PersistConnector c1 example_info_path w3 = (None, w4)"
    and fm: "node_FormatAndMount (device_of example_connector) ''/mnt/a'' ''ext4'' [''rw''] w4
               = (None, fst (snd ?A))"
    unfolding ip sel by blast
  from c cn have c_eq: "c = example_connector"
    by simp
  from co c_eq have c1_eq: "c1 = example_connector"
    by (simp add: node_Connect_def node_empty_def example_connector_def split: if_splits)
  from node_PersistConnector_stores [OF pe] node_FormatAndMount_frame [OF fm]
  have stored: "map_of (files (fst (snd ?A))) example_info_path = Some c1"
    by simp
  from AttachDisk_persists_between_connect_and_mount [OF triple_collapse [of ?B]] p
  have b: "fst ?B = ([], Some (Plain ''unable to create persistence file for connection''))
        \<and> \<not> list_ex is_FormatAndMount (snd (snd ?B))"
    by blast
  have mt: "mtab (fst (snd ?B)) = []"
    by (simp add: attach_on_node_persist_broken)
  from m cn tr pe fm stored b p mt show ?thesis
    unfolding c_eq c1_eq by blast
qed

text \<open>
  C7. When the trace of an \<open>AttachDisk\<close> call has a \<open>FormatAndMount\<close> call that
  returned an error, the call returns the device path with that very error; \<open>Connect\<close>
  and \<open>PersistConnector\<close> had succeeded; the node is left in the state in which the
  failed mount returned it; the trace has no unmount, disconnect or removal; and after
  the failed mount the call only writes log lines.
\<close>

theorem AttachDisk_mount_failure_no_rollback:
  assumes "AttachDisk h b w = ((devicePath, err), w', tr)"
    and "EFormatAndMount d p f os (Some e) \<in> set tr"
  shows "err = Some e \<and> devicePath = d \<and>
         (\<exists>c. EConnect c d None \<in> set tr) \<and>
         (\<exists>c1. EPersistConnector c1 (getIscsiInfoPath (driverName h) (VolName (disk b))) None
                 \<in> set tr) \<and>
         (\<exists>w4. FormatAndMount h d p f os w4 = (Some e, w')) \<and>
         \<not> list_ex teardown_call tr \<and>
         (\<exists>pre post. tr = pre @ [EFormatAndMount d p f os (Some e)] @ post \<and>
                     list_all log_line post)"
proof -
  from AttachDisk_mount_shape [OF assms]
  obtain c c1 n e2 w4 where res: "(devicePath, err) = (d, Some e)"
    and fm: "FormatAndMount h d p f os w4 = (Some e, w')"
    and tr: "tr = [Printf ''AttachDisk1'', Printf ''AttachDisk2'', EConnect c d None,
                 Printf ''AttachDisk3'', Printf ''AttachDisk4'',
                 EIsLikelyNotMountPoint p n e2, Printf ''AttachDisk5'',
                 Printf ''AttachDisk6'', EMkdirAll p None, Printf ''AttachDisk7'',
                 EPersistConnector c1 (getIscsiInfoPath (driverName h) (VolName (disk b))) None,
                 Printf ''AttachDisk8'', EFormatAndMount d p f os (Some e)]
                @ [Klog KError ''iscsi: failed to mount iscsi volume %s [%s] to %s, error %v'']
                @ [Printf ''AttachDisk9'']"
    by auto
  let ?pre = "[Printf ''AttachDisk1'', Printf ''AttachDisk2'', EConnect c d None,
                 Printf ''AttachDisk3'', Printf ''AttachDisk4'',
                 EIsLikelyNotMountPoint p n e2, Printf ''AttachDisk5'',
                 Printf ''AttachDisk6'', EMkdirAll p None, Printf ''AttachDisk7'',
                 EPersistConnector c1 (getIscsiInfoPath (driverName h) (VolName (disk b))) None,
                 Printf ''AttachDisk8'']"
  let ?post = "[Klog KError ''iscsi: failed to mount iscsi volume %s [%s] to %s, error %v'',
                Printf ''AttachDisk9'']"
  have "tr = ?pre @ [EFormatAndMount d p f os (Some e)] @ ?post \<and> list_all log_line ?post"
    by (simp add: tr)
  then have split: "\<exists>pre post. tr = pre @ [EFormatAndMount d p f os (Some e)] @ post \<and>
                     list_all log_line post"
    by blast
  have "EConnect c d None \<in> set tr"
    and "EPersistConnector c1 (getIscsiInfoPath (driverName h) (VolName (disk b))) None
           \<in> set tr"
    and "\<not> list_ex teardown_call tr"
    by (simp_all add: tr)
  with res fm split show ?thesis
    by blast
qed

theorem AttachDisk_mount_failure_no_rollback_witness:
  "EFormatAndMount (device_of example_connector) ''/mnt/a'' ''ext4'' [''rw'']
      (Some (Plain ''input/output error''))
     \<in> set (snd (snd (AttachDisk example_env example_mounter node_mount_broken)))
   \<and> fst (AttachDisk example_env example_mounter node_mount_broken) =
       (device_of example_connector, Some (Plain ''input/output error''))
   \<and> \<not> list_ex teardown_call (snd (snd (AttachDisk example_env example_mounter node_mount_broken)))
   \<and> map_of (files (fst (snd (AttachDisk example_env example_mounter node_mount_broken))))
        example_info_path = Some example_connector
   \<and> sessions (fst (snd (AttachDisk example_env example_mounter node_mount_broken))) =
        [(''iqn.2025-01.test:vol1'', ''10.0.0.5:3260'')]"
proof -
  let ?A = "AttachDisk example_env example_mounter node_mount_broken"
  have m: "EFormatAndMount (device_of example_connector) ''/mnt/a'' ''ext4'' [''rw'']
             (Some (Plain ''input/output error'')) \<in> set (snd (snd ?A))"
    by (simp add: attach_on_node_mount_broken)
  have run: "?A = ((fst (fst ?A), snd (fst ?A)), fst (snd ?A), snd (snd ?A))"
    by simp
  from AttachDisk_mount_failure_no_rollback [OF run m]
  have "fst ?A = (device_of example_connector, Some (Plain ''input/output error''))
        \<and> \<not> list_ex teardown_call (snd (snd ?A))"
    by (metis prod.collapse)
  moreover have "map_of (files (fst (snd ?A))) example_info_path = Some example_connector
      \<and> sessions (fst (snd ?A)) = [(''iqn.2025-01.test:vol1'', ''10.0.0.5:3260'')]"
    by (simp add: attach_on_node_mount_broken)
  ultimately show ?thesis
    using m by blast
qed


section \<open>Detach\<close>

lemma DetachDisk_in_use_run:
  "case DetachDisk h c target w of (res, w', tr) \<Rightarrow>
     \<forall>dev cnt. EUnmount target None \<in> set tr \<and>
               EGetDeviceNameFromMount target dev cnt None \<in> set tr \<and> cnt - 1 \<noteq> 0 \<longrightarrow>
       res = None \<and> (\<exists>w3. Unmount h target w3 = (None, w')) \<and>
       \<not> list_ex disconnect_or_delete tr"
  by (auto simp: DetachDisk_def Let_def split: prod.split option.split sum.split)

lemma DetachDisk_load_failure_run:
  "case DetachDisk h c target w of (res, w', tr) \<Rightarrow>
     \<forall>ip e. EGetConnectorFromFile ip (Inl e) \<in> set tr \<longrightarrow>
       ip = getIscsiInfoPath (driverName h) (VolName (udisk c)) \<and>
       EPathExists target True None \<in> set tr \<and>
       (if IsNotExist e
        then res = None \<and>
             Klog KWarning ''assuming that ISCSI connection is already closed'' \<in> set tr
        else res = Some (Status Internal (Error e))) \<and>
       \<not> list_ex teardown_call tr"
  by (auto simp: DetachDisk_def Let_def split: prod.split option.split sum.split)

text \<open>
  The three ways in which \<open>DetachDisk\<close> returns nil without stopping at a device
  that is still in use: the path is gone, the persistence file is gone, or the
  teardown ran to its end.
\<close>

lemma DetachDisk_success_cases_run:
  "case DetachDisk h c target w of (res, w', tr) \<Rightarrow>
     res = None \<and> (list_ex unmounted tr \<longrightarrow> list_ex file_removed tr) \<longrightarrow>
     (\<exists>dev cnt w1 px w2.
           GetDeviceNameFromMount h target w = ((dev, cnt, None), w1) \<and>
           PathExists h target w1 = ((px, None), w2) \<and>
           (\<not> px \<and> w' = w2 \<or>
            px \<and> (\<exists>e. GetConnectorFromFile h
                          (getIscsiInfoPath (driverName h) (VolName (udisk c))) w2 = (Inl e, w')
                        \<and> IsNotExist e) \<or>
            px \<and> (\<exists>conn w3 w4 w5 rerr w7.
                      GetConnectorFromFile h
                        (getIscsiInfoPath (driverName h) (VolName (udisk c))) w2 = (Inr conn, w3) \<and>
                      Unmount h target w3 = (None, w4) \<and>
                      DisconnectVolume h conn w4 = (None, w5) \<and>
                      RemoveAll h target (Disconnect h (TargetIqn conn) (TargetPortals conn) w5)
                        = (rerr, w7) \<and>
                      Remove h (getIscsiInfoPath (driverName h) (VolName (udisk c))) w7
                        = (None, w'))))"
  by (auto simp: DetachDisk_def Let_def split: prod.split option.split sum.split)

lemma DetachDisk_success_cases:
  assumes "DetachDisk h c target w = (None, w', tr)"
    and "list_ex unmounted tr \<longrightarrow> list_ex file_removed tr"
  shows "\<exists>dev cnt w1 px w2.
           GetDeviceNameFromMount h target w = ((dev, cnt, None), w1) \<and>
           PathExists h target w1 = ((px, None), w2) \<and>
           (\<not> px \<and> w' = w2 \<or>
            px \<and> (\<exists>e. GetConnectorFromFile h
                          (getIscsiInfoPath (driverName h) (VolName (udisk c))) w2 = (Inl e, w')
                        \<and> IsNotExist e) \<or>
            px \<and> (\<exists>conn w3 w4 w5 rerr w7.
                      GetConnectorFromFile h
                        (getIscsiInfoPath (driverName h) (VolName (udisk c))) w2 = (Inr conn, w3) \<and>
                      Unmount h target w3 = (None, w4) \<and>
                      DisconnectVolume h conn w4 = (None, w5) \<and>
                      RemoveAll h target (Disconnect h (TargetIqn conn) (TargetPortals conn) w5)
                        = (rerr, w7) \<and>
                      Remove h (getIscsiInfoPath (driverName h) (VolName (udisk c))) w7
                        = (None, w')))"
  using DetachDisk_success_cases_run [where h = h and c = c and target = target and w = w]
    assms
  by (simp only: prod.case, blast?)

subsection \<open>The collaborators of the node\<close>

lemma node_GetDeviceNameFromMount_ok:
  "node_GetDeviceNameFromMount p w = ((d, n, None), w1) \<Longrightarrow>
     w1 = w \<and> OpGetDeviceNameFromMount \<notin> set (failing w)"
  by (auto simp: node_GetDeviceNameFromMount_def Let_def split: if_splits)

lemma node_PathExists_ok:
  "node_PathExists p w = ((b, None), w1) \<Longrightarrow>
     w1 = w \<and> OpPathExists \<notin> set (failing w) \<and> b = (p \<in> set (dirs w))"
  by (auto simp: node_PathExists_def split: if_splits)

lemma node_GetConnectorFromFile_absent:
  "node_GetConnectorFromFile p w = (Inl e, w1) \<Longrightarrow> IsNotExist e \<Longrightarrow>
     w1 = w \<and> OpGetConnectorFromFile \<notin> set (failing w) \<and> map_of (files w) p = None"
  by (auto simp: node_GetConnectorFromFile_def broken_def split: if_splits option.splits)

lemma node_GetConnectorFromFile_ok:
  "node_GetConnectorFromFile p w = (Inr c, w1) \<Longrightarrow>
     w1 = w \<and> OpGetConnectorFromFile \<notin> set (failing w)"
  by (auto simp: node_GetConnectorFromFile_def split: if_splits option.splits)

lemma node_Unmount_frame:
  "node_Unmount p w = (r, w1) \<Longrightarrow>
     failing w1 = failing w \<and> dirs w1 = dirs w \<and> files w1 = files w"
  by (auto simp: node_Unmount_def split: if_splits)

lemma node_DisconnectVolume_frame:
  "node_DisconnectVolume c w = (r, w1) \<Longrightarrow>
     failing w1 = failing w \<and> dirs w1 = dirs w \<and> files w1 = files w"
  by (auto simp: node_DisconnectVolume_def split: if_splits)

lemma node_Disconnect_frame:
  "failing (node_Disconnect i ps w) = failing w \<and>
   dirs (node_Disconnect i ps w) = dirs w \<and> files (node_Disconnect i ps w) = files w"
  by (simp add: node_Disconnect_def)

lemma node_RemoveAll_frame:
  "node_RemoveAll p w = (r, w1) \<Longrightarrow> failing w1 = failing w \<and> files w1 = files w"
  by (auto simp: node_RemoveAll_def split: if_splits)

lemma node_Remove_ok:
  "node_Remove p w = (None, w1) \<Longrightarrow>
     failing w1 = failing w \<and> map_of (files w1) p = None"
  by (auto simp: node_Remove_def map_of_filter_out split: if_splits option.splits)

lemma node_env_sel:
  "driverName (node_env dn) = dn"
  "GetDeviceNameFromMount (node_env dn) = node_GetDeviceNameFromMount"
  "PathExists (node_env dn) = node_PathExists"
  "GetConnectorFromFile (node_env dn) = node_GetConnectorFromFile"
  "Unmount (node_env dn) = node_Unmount"
  "DisconnectVolume (node_env dn) = node_DisconnectVolume"
  "Disconnect (node_env dn) = node_Disconnect"
  "RemoveAll (node_env dn) = node_RemoveAll"
  "Remove (node_env dn) = node_Remove"
  by (simp_all add: node_env_def)

text \<open>
  After a successful \<open>DetachDisk\<close> that did not stop at a device still in use, the
  node is settled for this volume and path.
\<close>

lemma DetachDisk_settles:
  assumes "DetachDisk (node_env dn) c target w = (None, w1, tr1)"
    and "list_ex unmounted tr1 \<longrightarrow> list_ex file_removed tr1"
  shows "settled dn (VolName (udisk c)) target w1"
proof -
  let ?ip = "getIscsiInfoPath dn (VolName (udisk c))"
  from DetachDisk_success_cases [OF assms]
  obtain dev cnt wa px wb where
    g: "node_GetDeviceNameFromMount target w = ((dev, cnt, None), wa)" and
    p: "node_PathExists target wa = ((px, None), wb)" and
    rest: "\<not> px \<and> w1 = wb \<or>
       px \<and> (\<exists>e. node_GetConnectorFromFile ?ip wb = (Inl e, w1) \<and> IsNotExist e) \<or>
       px \<and> (\<exists>conn w3 w4 w5 rerr w7.
                 node_GetConnectorFromFile ?ip wb = (Inr conn, w3) \<and>
                 node_Unmount target w3 = (None, w4) \<and>
                 node_DisconnectVolume conn w4 = (None, w5) \<and>
                 node_RemoveAll target (node_Disconnect (TargetIqn conn) (TargetPortals conn) w5)
                   = (rerr, w7) \<and>
                 node_Remove ?ip w7 = (None, w1))"
    unfolding node_env_sel by blast
  from g have wa: "wa = w" "OpGetDeviceNameFromMount \<notin> set (failing w)"
    by (auto dest: node_GetDeviceNameFromMount_ok)
  from p wa have wb: "wb = w" "OpPathExists \<notin> set (failing w)" "px = (target \<in> set (dirs w))"
    by (auto dest: node_PathExists_ok)
  from rest show ?thesis
  proof (elim disjE conjE exE)
    assume "\<not> px" "w1 = wb"
    with wa wb show ?thesis by (simp add: settled_def)
  next
    fix e assume "node_GetConnectorFromFile ?ip wb = (Inl e, w1)" "IsNotExist e"
    from node_GetConnectorFromFile_absent [OF this] wa wb
    show ?thesis by (simp add: settled_def)
  next
    fix conn w3 w4 w5 rerr w7
    assume l: "node_GetConnectorFromFile ?ip wb = (Inr conn, w3)"
      and u: "node_Unmount target w3 = (None, w4)"
      and d: "node_DisconnectVolume conn w4 = (None, w5)"
      and ra: "node_RemoveAll target (node_Disconnect (TargetIqn conn) (TargetPortals conn) w5)
                 = (rerr, w7)"
      and rm: "node_Remove ?ip w7 = (None, w1)"
    from node_GetConnectorFromFile_ok [OF l] wb
    have 3: "w3 = w" "OpGetConnectorFromFile \<notin> set (failing w)" by simp_all
    have "failing w1 = failing w"
      using node_Remove_ok [OF rm] node_RemoveAll_frame [OF ra] node_Disconnect_frame
        node_DisconnectVolume_frame [OF d] node_Unmount_frame [OF u] 3 by simp
    moreover have "map_of (files w1) ?ip = None"
      using node_Remove_ok [OF rm] by simp
    ultimately show ?thesis using wa wb 3 by (simp add: settled_def)
  qed
qed

text \<open>On a settled node \<open>DetachDisk\<close> returns nil, changes nothing and tears nothing down.\<close>

lemma DetachDisk_settled:
  assumes "settled dn (VolName (udisk c)) target w1"
  shows "\<exists>tr2. DetachDisk (node_env dn) c target w1 = (None, w1, tr2) \<and>
               \<not> list_ex teardown_call tr2"
  using assms
  by (cases "target \<in> set (dirs w1)")
     (simp_all add: DetachDisk_def Let_def settled_def node_env_sel
        node_GetDeviceNameFromMount_def node_PathExists_def node_GetConnectorFromFile_def)

subsection \<open>Example runs\<close>

lemma detach_on_node_shared:
  "DetachDisk example_env example_unmounter ''/mnt/a'' node_shared =
   (None, node_shared\<lparr>mtab := [(device_of example_connector, ''/mnt/b'')]\<rparr>,
    [EGetDeviceNameFromMount ''/mnt/a'' (device_of example_connector) 2 None,
     EPathExists ''/mnt/a'' True None,
     Klog KInfo ''loading ISCSI connection info from %s'',
     EGetConnectorFromFile example_info_path (Inr example_connector),
     EUnmount ''/mnt/a'' None,
     Klog KError ''the device is in use : %d''])"
  by (simp add: DetachDisk_def Let_def node_defs example_defs)

lemma detach_again_on_node_shared:
  "DetachDisk example_env example_unmounter ''/mnt/a''
     (node_shared\<lparr>mtab := [(device_of example_connector, ''/mnt/b'')]\<rparr>) =
   (Some (Plain ''not mounted''),
    node_shared\<lparr>mtab := [(device_of example_connector, ''/mnt/b'')]\<rparr>,
    [EGetDeviceNameFromMount ''/mnt/a'' [] 0 None,
     EPathExists ''/mnt/a'' True None,
     Klog KInfo ''loading ISCSI connection info from %s'',
     EGetConnectorFromFile example_info_path (Inr example_connector),
     EUnmount ''/mnt/a'' (Some (Plain ''not mounted'')),
     Klog KError (''iscsi detach disk: failed to unmount: %s'' @ [CHR 0x0A] @ ''Error: %v'')])"
  by (simp add: DetachDisk_def Let_def node_defs example_defs)

lemma detach_on_node_single:
  "DetachDisk example_env example_unmounter ''/mnt/a'' node_single =
   (None,
    \<lparr>failing = [], mtab = [], dirs = [''/mnt/b''], files = [], sessions = [],
     devices = []\<rparr>,
    [EGetDeviceNameFromMount ''/mnt/a'' (device_of example_connector) 1 None,
     EPathExists ''/mnt/a'' True None,
     Klog KInfo ''loading ISCSI connection info from %s'',
     EGetConnectorFromFile example_info_path (Inr example_connector),
     EUnmount ''/mnt/a'' None,
     Klog KInfo ''detaching ISCSI device'',
     EDisconnectVolume example_connector None,
     EDisconnect ''iqn.2025-01.test:vol1'' [''10.0.0.5:3260''],
     ERemoveAll ''/mnt/a'' None,
     ERemove example_info_path None,
     Klog KInfo ''successfully detached ISCSI device''])"
  by (simp add: DetachDisk_def Let_def node_defs example_defs)

lemma detach_on_node_unrecorded:
  "DetachDisk example_env example_unmounter ''/mnt/a'' node_unrecorded =
   (None, node_unrecorded,
    [EGetDeviceNameFromMount ''/mnt/a'' [] 0 None,
     EPathExists ''/mnt/a'' True None,
     Klog KInfo ''loading ISCSI connection info from %s'',
     EGetConnectorFromFile example_info_path (Inl (NotExist ''no such file or directory'')),
     Klog KWarning ''assuming that ISCSI connection is already closed''])"
  by (simp add: DetachDisk_def Let_def node_defs example_defs)

lemma detach_on_node_unreadable:
  "DetachDisk example_env example_unmounter ''/mnt/a'' node_unreadable =
   (Some (Status Internal ''input/output error''), node_unreadable,
    [EGetDeviceNameFromMount ''/mnt/a'' (device_of example_connector) 2 None,
     EPathExists ''/mnt/a'' True None,
     Klog KInfo ''loading ISCSI connection info from %s'',
     EGetConnectorFromFile example_info_path (Inl (Plain ''input/output error''))])"
  by (simp add: DetachDisk_def Let_def node_defs example_defs)


subsection \<open>Properties of detach\<close>

text \<open>
  C3. When, in a \<open>DetachDisk\<close> call, the unmount of the target path returned no
  error and the reference count that \<open>GetDeviceNameFromMount\<close> gave for the path is
  not zero after it is decremented by one, the call returns nil, its trace has no
  \<open>DisconnectVolume\<close>, no \<open>Disconnect\<close> (the logout) and no removal of the path or
  of the persistence file, and the node is left as the unmount returned it.
\<close>

theorem DetachDisk_still_in_use:
  assumes "DetachDisk h c target w = (res, w', tr)"
    and "EUnmount target None \<in> set tr"
    and "EGetDeviceNameFromMount target dev cnt None \<in> set tr"
    and "cnt - 1 \<noteq> 0"
  shows "res = None \<and> \<not> list_ex disconnect_or_delete tr \<and>
         (\<exists>w3. Unmount h target w3 = (None, w'))"
  using DetachDisk_in_use_run [where h = h and c = c and target = target and w = w] assms
  by (simp only: prod.case, blast?)

theorem DetachDisk_still_in_use_witness:
  "EUnmount ''/mnt/a'' None
     \<in> set (snd (snd (DetachDisk example_env example_unmounter ''/mnt/a'' node_shared)))
   \<and> EGetDeviceNameFromMount ''/mnt/a'' (device_of example_connector) 2 None
     \<in> set (snd (snd (DetachDisk example_env example_unmounter ''/mnt/a'' node_shared)))
   \<and> (2 :: 64 word) - 1 \<noteq> 0
   \<and> fst (DetachDisk example_env example_unmounter ''/mnt/a'' node_shared) = None
   \<and> \<not> list_ex disconnect_or_delete
         (snd (snd (DetachDisk example_env example_unmounter ''/mnt/a'' node_shared)))"
proof -
  let ?D = "DetachDisk example_env example_unmounter ''/mnt/a'' node_shared"
  have u: "EUnmount ''/mnt/a'' None \<in> set (snd (snd ?D))"
    by (simp add: detach_on_node_shared)
  have g: "EGetDeviceNameFromMount ''/mnt/a'' (device_of example_connector) 2 None
             \<in> set (snd (snd ?D))"
    by (simp add: detach_on_node_shared)
  have n: "(2 :: 64 word) - 1 \<noteq> 0"
    by simp
  from DetachDisk_still_in_use [OF triple_collapse [of ?D] u g n] u g n
  show ?thesis
    by blast
qed

text \<open>
  C4. When, in a \<open>DetachDisk\<close> call, the load of the persisted Connector returned an
  error (the load is reached only after the target path was found to exist), then: if
  the error is a not-exist error, the call logs the warning and returns nil; any other
  load error is returned, as an internal error with the text of the load error. In
  both cases nothing is unmounted, disconnected or removed.
\<close>

theorem DetachDisk_load_failure:
  assumes "DetachDisk h c target w = (res, w', tr)"
    and "EGetConnectorFromFile ip (Inl e) \<in> set tr"
  shows "EPathExists target True None \<in> set tr \<and>
         ip = getIscsiInfoPath (driverName h) (VolName (udisk c)) \<and>
         (if IsNotExist e
          then res = None \<and>
               Klog KWarning ''assuming that ISCSI connection is already closed'' \<in> set tr
          else res = Some (Status Internal (Error e))) \<and>
         \<not> list_ex teardown_call tr"
  using DetachDisk_load_failure_run [where h = h and c = c and target = target and w = w]
    assms
  by (simp only: prod.case, blast?)

theorem DetachDisk_load_failure_witness:
  "EGetConnectorFromFile example_info_path (Inl (NotExist ''no such file or directory''))
     \<in> set (snd (snd (DetachDisk example_env example_unmounter ''/mnt/a'' node_unrecorded)))
   \<and> fst (DetachDisk example_env example_unmounter ''/mnt/a'' node_unrecorded) = None
   \<and> Klog KWarning ''assuming that ISCSI connection is already closed''
     \<in> set (snd (snd (DetachDisk example_env example_unmounter ''/mnt/a'' node_unrecorded)))
   \<and> EGetConnectorFromFile example_info_path (Inl (Plain ''input/output error''))
     \<in> set (snd (snd (DetachDisk example_env example_unmounter ''/mnt/a'' node_unreadable)))
   \<and> fst (DetachDisk example_env example_unmounter ''/mnt/a'' node_unreadable)
       = Some (Status Internal ''input/output error'')"
proof -
  let ?A = "DetachDisk example_env example_unmounter ''/mnt/a'' node_unrecorded"
  let ?B = "DetachDisk example_env example_unmounter ''/mnt/a'' node_unreadable"
  have a: "EGetConnectorFromFile example_info_path
             (Inl (NotExist ''no such file or directory'')) \<in> set (snd (snd ?A))"
    by (simp add: detach_on_node_unrecorded)
  have b: "EGetConnectorFromFile example_info_path (Inl (Plain ''input/output error''))
             \<in> set (snd (snd ?B))"
    by (simp add: detach_on_node_unreadable)
  from DetachDisk_load_failure [OF triple_collapse [of ?A] a]
  have "fst ?A = None \<and>
        Klog KWarning ''assuming that ISCSI connection is already closed''
          \<in> set (snd (snd ?A))"
    by simp
  moreover from DetachDisk_load_failure [OF triple_collapse [of ?B] b]
  have "fst ?B = Some (Status Internal ''input/output error'')"
    by simp
  ultimately show ?thesis
    using a b by blast
qed

text \<open>
  C5, at an input where it fails. The device of \<open>vol-1\<close> is mounted at \<open>/mnt/a\<close>
  and at \<open>/mnt/b\<close>. A first \<open>DetachDisk\<close> of \<open>/mnt/a\<close> unmounts it, finds the
  device still in use and returns nil. A second \<open>DetachDisk\<close> of \<open>/mnt/a\<close> on the
  node as the first one left it finds the path and the persistence file in place,
  calls the unmount again, and returns the error of that unmount.
\<close>

theorem DetachDisk_repeat_after_in_use:
  "fst (DetachDisk example_env example_unmounter ''/mnt/a'' node_shared) = None \<and>
   fst (DetachDisk example_env example_unmounter ''/mnt/a''
          (fst (snd (DetachDisk example_env example_unmounter ''/mnt/a'' node_shared))))
     = Some (Plain ''not mounted'') \<and>
   EUnmount ''/mnt/a'' (Some (Plain ''not mounted''))
     \<in> set (snd (snd (DetachDisk example_env example_unmounter ''/mnt/a''
          (fst (snd (DetachDisk example_env example_unmounter ''/mnt/a'' node_shared))))))"
  by (simp add: detach_on_node_shared detach_again_on_node_shared)

text \<open>
  C5, amended. On a node whose collaborators behave as the node model says, let a
  \<open>DetachDisk\<close> call return nil without having stopped at a device that is still in
  use: if it unmounted, it also deleted the persistence file (the full teardown);
  otherwise it found the path or the persistence file gone. Then a second call for
  the same volume and target path, on the node as the first call left it, returns
  nil, leaves the node unchanged, and unmounts, disconnects and removes nothing.
\<close>

theorem DetachDisk_repeat_is_noop:
  assumes "DetachDisk (node_env dn) c target w = (None, w1, tr1)"
    and "list_ex unmounted tr1 \<longrightarrow> list_ex file_removed tr1"
  shows "\<exists>tr2. DetachDisk (node_env dn) c target w1 = (None, w1, tr2) \<and>
               \<not> list_ex teardown_call tr2"
  using DetachDisk_settled [OF DetachDisk_settles [OF assms]] .

theorem DetachDisk_repeat_is_noop_witness:
  "fst (DetachDisk example_env example_unmounter ''/mnt/a'' node_single) = None
   \<and> list_ex unmounted
        (snd (snd (DetachDisk example_env example_unmounter ''/mnt/a'' node_single)))
   \<and> list_ex file_removed
        (snd (snd (DetachDisk example_env example_unmounter ''/mnt/a'' node_single)))
   \<and> (\<exists>tr2. DetachDisk example_env example_unmounter ''/mnt/a''
               (fst (snd (DetachDisk example_env example_unmounter ''/mnt/a'' node_single)))
             = (None,
                fst (snd (DetachDisk example_env example_unmounter ''/mnt/a'' node_single)),
                tr2)
           \<and> \<not> list_ex teardown_call tr2)"
proof -
  let ?D = "DetachDisk example_env example_unmounter ''/mnt/a'' node_single"
  have r: "fst ?D = None"
    by (simp add: detach_on_node_single)
  have u: "list_ex unmounted (snd (snd ?D))"
    by (simp add: detach_on_node_single)
  have f: "list_ex file_removed (snd (snd ?D))"
    by (simp add: detach_on_node_single)
  have run: "DetachDisk (node_env ''virium-iscsi.csi.k8s.io'') example_unmounter ''/mnt/a''
               node_single = (None, fst (snd ?D), snd (snd ?D))"
    using r triple_collapse [of ?D] by (simp add: example_env_def)
  from DetachDisk_repeat_is_noop [OF run] f
  have "\<exists>tr2. DetachDisk example_env example_unmounter ''/mnt/a'' (fst (snd ?D))
               = (None, fst (snd ?D), tr2) \<and> \<not> list_ex teardown_call tr2"
    by (simp add: example_env_def)
  with r u f show ?thesis
    by blast
qed


end
